theory Spec2Isabelle
  imports Complex_Main
begin

section \<open>Numbers, vectors and matrices\<close>

text \<open>
  The registration script \<^verbatim>\<open>src/registration.py\<close> computes with NumPy arrays of
  double-precision floats: 3-vectors (\<^verbatim>\<open>np.zeros(3)\<close>, a transform's center and
  translation) and 3x3 matrices (\<^verbatim>\<open>np.eye(3)\<close>, a transform's matrix reshaped to
  \<^verbatim>\<open>(3, 3)\<close>). The model computes with real numbers: every statement below is about
  the exact arithmetic the floating-point code approximates, and rounding is outside it.
\<close>

datatype vec3 = Vec3 real real real

instantiation vec3 :: ab_group_add
begin

definition zero_vec3 :: vec3 where
  "zero_vec3 = Vec3 0 0 0"

fun plus_vec3 :: "vec3 \<Rightarrow> vec3 \<Rightarrow> vec3" where
  "plus_vec3 (Vec3 a b c) (Vec3 x y z) = Vec3 (a + x) (b + y) (c + z)"

fun minus_vec3 :: "vec3 \<Rightarrow> vec3 \<Rightarrow> vec3" where
  "minus_vec3 (Vec3 a b c) (Vec3 x y z) = Vec3 (a - x) (b - y) (c - z)"

fun uminus_vec3 :: "vec3 \<Rightarrow> vec3" where
  "uminus_vec3 (Vec3 a b c) = Vec3 (- a) (- b) (- c)"

instance
proof
  fix u v w :: vec3
  show "u + v + w = u + (v + w)"
    by (cases u, cases v, cases w) simp
  show "u + v = v + u"
    by (cases u, cases v) simp
  show "0 + u = u"
    by (cases u) (simp add: zero_vec3_def)
  show "- u + u = 0"
    by (cases u) (simp add: zero_vec3_def)
  show "u - v = u + - v"
    by (cases u, cases v) simp
qed

end

text \<open>A matrix is its three rows, as \<^verbatim>\<open>reshape(3, 3)\<close> of the row-major 9-tuple gives them.\<close>

datatype mat3 = Mat3 vec3 vec3 vec3

definition zeros3 :: vec3 where
  "zeros3 = Vec3 0 0 0"

definition eye3 :: mat3 where
  "eye3 = Mat3 (Vec3 1 0 0) (Vec3 0 1 0) (Vec3 0 0 1)"

fun inner3 :: "vec3 \<Rightarrow> vec3 \<Rightarrow> real" where
  "inner3 (Vec3 a b c) (Vec3 x y z) = a * x + b * y + c * z"

fun scale_vec :: "real \<Rightarrow> vec3 \<Rightarrow> vec3" where
  "scale_vec k (Vec3 a b c) = Vec3 (k * a) (k * b) (k * c)"

fun scale_mat :: "real \<Rightarrow> mat3 \<Rightarrow> mat3" where
  "scale_mat k (Mat3 r0 r1 r2) = Mat3 (scale_vec k r0) (scale_vec k r1) (scale_vec k r2)"

fun transpose3 :: "mat3 \<Rightarrow> mat3" where
  "transpose3 (Mat3 (Vec3 a b c) (Vec3 d e f) (Vec3 g h i)) =
     Mat3 (Vec3 a d g) (Vec3 b e h) (Vec3 c f i)"

text \<open>\<^verbatim>\<open>np.dot(M, v)\<close> for a matrix and a vector, and \<^verbatim>\<open>np.dot(A, B)\<close> for two matrices.\<close>

fun dot_mv :: "mat3 \<Rightarrow> vec3 \<Rightarrow> vec3" where
  "dot_mv (Mat3 r0 r1 r2) v = Vec3 (inner3 r0 v) (inner3 r1 v) (inner3 r2 v)"

fun dot_mm :: "mat3 \<Rightarrow> mat3 \<Rightarrow> mat3" where
  "dot_mm (Mat3 r0 r1 r2) B =
     Mat3 (dot_mv (transpose3 B) r0) (dot_mv (transpose3 B) r1) (dot_mv (transpose3 B) r2)"

section \<open>The transform classes of SimpleITK\<close>

text \<open>
  The script reads, builds and writes transforms through the SimpleITK library, which is
  not part of the repository. The model keeps, for each class the pipeline meets, the
  fields the script gets and sets, with the meaning section 3 of the specification gives
  them: a transform maps a point \<open>x\<close> to \<open>matrix \<cdot> (x - center) + center + translation\<close>,
  and the matrix of a similarity transform is its rotation times its scale.

  \<^item> \<^verbatim>\<open>Euler3DTransform\<close>: a rigid transform (what the estimator writes for
    \<^verbatim>\<open>Rigid[0.1]\<close>, and what the script itself constructs);
  \<^item> \<^verbatim>\<open>Similarity3DTransform\<close>: rotation, one isotropic scale, center, translation
    (what the estimator writes for \<^verbatim>\<open>Similarity[0.1]\<close>);
  \<^item> \<^verbatim>\<open>CompositeTransform\<close>: an ordered list of transforms, possibly nested.
\<close>

record euler3d =
  matrix :: mat3
  center :: vec3
  translation :: vec3

record similarity3d =
  rotation :: mat3
  scale :: real
  sim_center :: vec3
  sim_translation :: vec3

datatype transform =
    Euler3DTransform euler3d
  | Similarity3DTransform similarity3d
  | CompositeTransform "transform list"

text \<open>
  The exceptions the modelled code can raise, by their Python class: SimpleITK reports
  its own failures as \<^verbatim>\<open>RuntimeError\<close>; a method a class does not have is an
  \<^verbatim>\<open>AttributeError\<close>; a tuple index out of range is an \<^verbatim>\<open>IndexError\<close>; the
  orchestrator's own checks raise \<^verbatim>\<open>ValueError\<close>; NiBabel raises
  \<^verbatim>\<open>FileNotFoundError\<close> for a missing file and \<^verbatim>\<open>ImageFileError\<close> for a file
  that is not an image; \<^verbatim>\<open>subprocess\<close> raises \<^verbatim>\<open>CalledProcessError\<close> for a tool
  that fails and \<^verbatim>\<open>TypeError\<close> for an argument that is not a string or a path.
\<close>

datatype error =
    RuntimeError
  | AttributeError
  | IndexError
  | ValueError
  | FileNotFoundError
  | ImageFileError
  | CalledProcessError
  | TypeError

definition and_then :: "error + 'a \<Rightarrow> ('a \<Rightarrow> error + 'b) \<Rightarrow> error + 'b" where
  "and_then r f = (case r of Inl e \<Rightarrow> Inl e | Inr x \<Rightarrow> f x)"

text \<open>The default-constructed transforms: identity rotation, unit scale, zero vectors.\<close>

definition Euler3DTransform_new :: euler3d where
  "Euler3DTransform_new = \<lparr>matrix = eye3, center = zeros3, translation = zeros3\<rparr>"

definition Similarity3DTransform_new :: similarity3d where
  "Similarity3DTransform_new =
     \<lparr>rotation = eye3, scale = 1, sim_center = zeros3, sim_translation = zeros3\<rparr>"

text \<open>
  The getters the script calls on whatever class \<^verbatim>\<open>ReadTransform(...).Downcast()\<close>
  returns. A composite transform has none of them.
\<close>

fun GetMatrix :: "transform \<Rightarrow> error + mat3" where
  "GetMatrix (Euler3DTransform e) = Inr (matrix e)"
| "GetMatrix (Similarity3DTransform s) = Inr (scale_mat (scale s) (rotation s))"
| "GetMatrix (CompositeTransform ts) = Inl AttributeError"

fun GetCenter :: "transform \<Rightarrow> error + vec3" where
  "GetCenter (Euler3DTransform e) = Inr (center e)"
| "GetCenter (Similarity3DTransform s) = Inr (sim_center s)"
| "GetCenter (CompositeTransform ts) = Inl AttributeError"

fun GetTranslation :: "transform \<Rightarrow> error + vec3" where
  "GetTranslation (Euler3DTransform e) = Inr (translation e)"
| "GetTranslation (Similarity3DTransform s) = Inr (sim_translation s)"
| "GetTranslation (CompositeTransform ts) = Inl AttributeError"

fun GetScale :: "transform \<Rightarrow> error + real" where
  "GetScale (Similarity3DTransform s) = Inr (scale s)"
| "GetScale (Euler3DTransform e) = Inl AttributeError"
| "GetScale (CompositeTransform ts) = Inl AttributeError"

text \<open>
  \<^verbatim>\<open>Euler3DTransform.SetMatrix(matrix, tolerance=1e-10)\<close> refuses a matrix \<open>M\<close> unless
  every entry of \<open>M \<cdot> M\<^sup>T\<close> is within the tolerance of the identity's.
\<close>

fun is_identity :: "mat3 \<Rightarrow> real \<Rightarrow> bool" where
  "is_identity (Mat3 (Vec3 a b c) (Vec3 d e f) (Vec3 g h i)) tol =
     (\<bar>a - 1\<bar> \<le> tol \<and> \<bar>b\<bar> \<le> tol \<and> \<bar>c\<bar> \<le> tol \<and>
      \<bar>d\<bar> \<le> tol \<and> \<bar>e - 1\<bar> \<le> tol \<and> \<bar>f\<bar> \<le> tol \<and>
      \<bar>g\<bar> \<le> tol \<and> \<bar>h\<bar> \<le> tol \<and> \<bar>i - 1\<bar> \<le> tol)"

definition MatrixIsOrthogonal :: "mat3 \<Rightarrow> real \<Rightarrow> bool" where
  "MatrixIsOrthogonal M tol = is_identity (dot_mm M (transpose3 M)) tol"

definition default_tolerance :: real where
  "default_tolerance = 1 / 10 ^ 10"

definition SetMatrix :: "euler3d \<Rightarrow> mat3 \<Rightarrow> error + euler3d" where
  "SetMatrix e M =
     (if MatrixIsOrthogonal M default_tolerance then Inr (e\<lparr>matrix := M\<rparr>)
      else Inl RuntimeError)"

text \<open>\<^verbatim>\<open>TransformPoint\<close>, the mapping of a point by a rigid transform.\<close>

definition TransformPoint :: "euler3d \<Rightarrow> vec3 \<Rightarrow> vec3" where
  "TransformPoint e x = dot_mv (matrix e) (x - center e) + center e + translation e"

text \<open>
  \<^verbatim>\<open>GetInverse\<close>. The inverse of \<open>x \<mapsto> s\<cdot>R\<cdot>(x - c) + c + t\<close> is
  \<open>y \<mapsto> (1/s)\<cdot>R\<^sup>T\<cdot>(y - c) + c - (1/s)\<cdot>R\<^sup>T\<cdot>t\<close>: the same class and center, the
  reciprocal scale. A similarity transform of scale zero has a singular matrix and
  SimpleITK raises; a composite transform is inverted member by member, in reverse order.
\<close>

fun sequence :: "(error + 'a) list \<Rightarrow> error + 'a list" where
  "sequence [] = Inr []"
| "sequence (r # rs) = and_then r (\<lambda>x. and_then (sequence rs) (\<lambda>xs. Inr (x # xs)))"

fun GetInverse :: "transform \<Rightarrow> error + transform" where
  "GetInverse (Euler3DTransform e) =
     Inr (Euler3DTransform
       \<lparr>matrix = transpose3 (matrix e), center = center e,
        translation = - dot_mv (transpose3 (matrix e)) (translation e)\<rparr>)"
| "GetInverse (Similarity3DTransform s) =
     (if scale s = 0 then Inl RuntimeError
      else Inr (Similarity3DTransform
        \<lparr>rotation = transpose3 (rotation s), scale = 1 / scale s, sim_center = sim_center s,
         sim_translation =
           - scale_vec (1 / scale s) (dot_mv (transpose3 (rotation s)) (sim_translation s))\<rparr>))"
| "GetInverse (CompositeTransform ts) =
     and_then (sequence (map GetInverse ts)) (\<lambda>inverses. Inr (CompositeTransform (rev inverses)))"

text \<open>\<^verbatim>\<open>SetScale\<close> exists on the similarity class only.\<close>

fun SetScale :: "transform \<Rightarrow> real \<Rightarrow> error + transform" where
  "SetScale (Similarity3DTransform s) x = Inr (Similarity3DTransform (s\<lparr>scale := x\<rparr>))"
| "SetScale (Euler3DTransform e) x = Inl AttributeError"
| "SetScale (CompositeTransform ts) x = Inl AttributeError"

text \<open>
  \<^verbatim>\<open>FlattenTransform\<close> replaces every nested composite by its members, in place and
  in order; \<^verbatim>\<open>GetNthTransform\<close> indexes the members. Both exist on the composite class
  only.
\<close>

fun members :: "transform \<Rightarrow> transform list" where
  "members (CompositeTransform ts) = concat (map members ts)"
| "members (Euler3DTransform e) = [Euler3DTransform e]"
| "members (Similarity3DTransform s) = [Similarity3DTransform s]"

fun FlattenTransform :: "transform \<Rightarrow> error + transform" where
  "FlattenTransform (CompositeTransform ts) = Inr (CompositeTransform (concat (map members ts)))"
| "FlattenTransform (Euler3DTransform e) = Inl AttributeError"
| "FlattenTransform (Similarity3DTransform s) = Inl AttributeError"

fun GetNthTransform :: "transform \<Rightarrow> nat \<Rightarrow> error + transform" where
  "GetNthTransform (CompositeTransform ts) n =
     (if n < length ts then Inr (ts ! n) else Inl RuntimeError)"
| "GetNthTransform (Euler3DTransform e) n = Inl AttributeError"
| "GetNthTransform (Similarity3DTransform s) n = Inl AttributeError"

section \<open>Paths and files\<close>

text \<open>
  A \<^verbatim>\<open>pathlib.Path\<close> is the list of its components below the root (the orchestrator
  resolves every path it is given to an absolute one). \<^verbatim>\<open>p / name\<close>, \<^verbatim>\<open>p.parent\<close>,
  \<^verbatim>\<open>p.name\<close>, \<^verbatim>\<open>p.stem\<close>, \<^verbatim>\<open>p.suffix\<close> and \<^verbatim>\<open>str(p)\<close> follow pathlib: the
  suffix starts at the last dot of the name, unless that dot is the name's first or last
  character.
\<close>

type_synonym path = "string list"

definition path_join :: "path \<Rightarrow> string \<Rightarrow> path" where
  "path_join p s = p @ [s]"

definition path_parent :: "path \<Rightarrow> path" where
  "path_parent p = butlast p"

definition path_name :: "path \<Rightarrow> string" where
  "path_name p = (if p = [] then [] else last p)"

definition rfind_dot :: "string \<Rightarrow> nat option" where
  "rfind_dot s =
     (if CHR ''.'' \<in> set s
      then Some (length s - 1 - length (takeWhile (\<lambda>c. c \<noteq> CHR ''.'') (rev s)))
      else None)"

definition path_suffix :: "path \<Rightarrow> string" where
  "path_suffix p =
     (case rfind_dot (path_name p) of
        None \<Rightarrow> []
      | Some i \<Rightarrow> if 0 < i \<and> i < length (path_name p) - 1 then drop i (path_name p) else [])"

definition path_stem :: "path \<Rightarrow> string" where
  "path_stem p =
     (case rfind_dot (path_name p) of
        None \<Rightarrow> path_name p
      | Some i \<Rightarrow>
          if 0 < i \<and> i < length (path_name p) - 1 then take i (path_name p) else path_name p)"

definition path_str :: "path \<Rightarrow> string" where
  "path_str p = (if p = [] then ''/'' else concat (map (\<lambda>c. CHR ''/'' # c) p))"

text \<open>
  \<^verbatim>\<open>s.replace(old, new)\<close>: every occurrence of \<open>old\<close>, left to right, without
  overlap. (With an empty \<open>old\<close> Python puts \<open>new\<close> around every character.)
\<close>

function replace_scan :: "string \<Rightarrow> string \<Rightarrow> string \<Rightarrow> string" where
  "replace_scan old new [] = []"
| "replace_scan old new (c # cs) =
     (if old \<noteq> [] \<and> take (length old) (c # cs) = old
      then new @ replace_scan old new (drop (length old) (c # cs))
      else c # replace_scan old new cs)"
  by pat_completeness auto
termination
  by (relation "measure (\<lambda>(old, new, s). length s)") auto

definition replace :: "string \<Rightarrow> string \<Rightarrow> string \<Rightarrow> string" where
  "replace s old new =
     (if old = [] then new @ concat (map (\<lambda>c. c # new) s) else replace_scan old new s)"

text \<open>
  A file holds a transform (what \<^verbatim>\<open>ReadTransform\<close> and \<^verbatim>\<open>WriteTransform\<close> move) or
  a NIfTI image, of which the script reads the header geometry: \<^verbatim>\<open>shape\<close> (Python
  integers) and \<^verbatim>\<open>header.get_zooms()\<close> (the voxel spacings), and the voxel
  intensities \<^verbatim>\<open>get_fdata()\<close> returns, as the list of their values. The file system is the
  map from paths to files. Directories are not part of it: a write always succeeds. A
  function that fails returns the error alone; what it had written before failing is not
  kept.
\<close>

record nifti =
  shape :: "int list"
  zooms :: "real list"
  fdata :: "real list"

datatype file_content = TransformFile transform | NiftiFile nifti

type_synonym filesystem = "path \<rightharpoonup> file_content"

definition ReadTransform :: "filesystem \<Rightarrow> path \<Rightarrow> error + transform" where
  "ReadTransform fs p =
     (case fs p of Some (TransformFile t) \<Rightarrow> Inr t | _ \<Rightarrow> Inl RuntimeError)"

definition WriteTransform :: "transform \<Rightarrow> path \<Rightarrow> filesystem \<Rightarrow> filesystem" where
  "WriteTransform t p fs = fs(p \<mapsto> TransformFile t)"

definition Nifti1Image_load :: "filesystem \<Rightarrow> path \<Rightarrow> error + nifti" where
  "Nifti1Image_load fs p =
     (case fs p of
        None \<Rightarrow> Inl FileNotFoundError
      | Some (TransformFile t) \<Rightarrow> Inl ImageFileError
      | Some (NiftiFile img) \<Rightarrow> Inr img)"

text \<open>Indexing a tuple with a non-negative literal index.\<close>

definition getitem :: "'a list \<Rightarrow> nat \<Rightarrow> error + 'a" where
  "getitem xs i = (if i < length xs then Inr (xs ! i) else Inl IndexError)"

section \<open>The transform functions of the script\<close>

subsection \<open>\<^verbatim>\<open>extract_rigid_transform\<close>\<close>

text \<open>
  Lines 19 to 61. The function loads the fixed image, reads the similarity transform,
  builds the inverse-scale transform from a default similarity transform (scale of the
  inverse of the input; the center computed from the image geometry) and writes it, then
  resets the input's scale to one and copies its matrix, translation and center into a
  default rigid transform, which it writes too. It returns the two paths; the model
  returns the file system after the two writes with them.
\<close>

definition invscale_path :: "path \<Rightarrow> path" where
  "invscale_path transform =
     path_join (path_parent transform) (path_stem transform @ ''_invscale'' @ path_suffix transform)"

definition rigid_path :: "path \<Rightarrow> path" where
  "rigid_path transform =
     path_join (path_parent transform) (path_stem transform @ ''_rigid'' @ path_suffix transform)"

definition extract_rigid_transform ::
  "path \<Rightarrow> path \<Rightarrow> filesystem \<Rightarrow> error + (filesystem \<times> path \<times> path)" where
  "extract_rigid_transform transform target fs =
     and_then (Nifti1Image_load fs target) (\<lambda>fixed_obj.
     and_then (ReadTransform fs transform) (\<lambda>tfm.
     and_then (GetInverse tfm) (\<lambda>inv.
     and_then (GetScale inv) (\<lambda>inv_scale.
     and_then (getitem (shape fixed_obj) 1) (\<lambda>dim1.
     and_then (getitem (shape fixed_obj) 2) (\<lambda>dim2.
     and_then (getitem (zooms fixed_obj) 0) (\<lambda>spacing0.
       let inv_scale_tfm = Similarity3DTransform_new
             \<lparr>scale := inv_scale,
              sim_center := Vec3 0 (real_of_int (dim1 - dim2) * spacing0)
                                   (real_of_int (dim1 - dim2) * spacing0)\<rparr>;
           fs1 = WriteTransform (Similarity3DTransform inv_scale_tfm) (invscale_path transform) fs
       in
     and_then (SetScale tfm 1) (\<lambda>tfm1.
     and_then (GetMatrix tfm1) (\<lambda>m.
     and_then (SetMatrix Euler3DTransform_new m) (\<lambda>rigid0.
     and_then (GetTranslation tfm1) (\<lambda>t.
     and_then (GetCenter tfm1) (\<lambda>c.
       let rigid = rigid0\<lparr>translation := t, center := c\<rparr>;
           fs2 = WriteTransform (Euler3DTransform rigid) (rigid_path transform) fs1
       in Inr (fs2, invscale_path transform, rigid_path transform)))))))))))))"

subsection \<open>\<^verbatim>\<open>extract_from_composite\<close>\<close>

text \<open>
  Lines 64 to 83: read the composite, flatten it, write its member 0 beside it under the
  name with \<^verbatim>\<open>Composite.h5\<close> replaced by \<^verbatim>\<open>Rigid.mat\<close>, and return that path.
  Nothing looks at how many members the flattened composite has, or at the class of the
  one it takes.
\<close>

definition extracted_path :: "path \<Rightarrow> path" where
  "extracted_path composite =
     path_join (path_parent composite) (replace (path_name composite) ''Composite.h5'' ''Rigid.mat'')"

definition extract_from_composite :: "path \<Rightarrow> filesystem \<Rightarrow> error + (filesystem \<times> path)" where
  "extract_from_composite composite fs =
     and_then (ReadTransform fs composite) (\<lambda>comp_tfm.
     and_then (FlattenTransform comp_tfm) (\<lambda>flat.
     and_then (GetNthTransform flat 0) (\<lambda>first.
       Inr (WriteTransform first (extracted_path composite) fs, extracted_path composite))))"

subsection \<open>\<^verbatim>\<open>compose_transforms\<close>\<close>

text \<open>
  Lines 86 to 115. All the files are read first; the loop runs over the reversed list
  with the accumulators \<^verbatim>\<open>mat\<close>, \<^verbatim>\<open>c\<close> and \<^verbatim>\<open>t\<close>; the result is set into a
  default rigid transform and written.
\<close>

fun read_all :: "filesystem \<Rightarrow> path list \<Rightarrow> error + transform list" where
  "read_all fs [] = Inr []"
| "read_all fs (transform_file # rest) =
     and_then (ReadTransform fs transform_file) (\<lambda>t.
     and_then (read_all fs rest) (\<lambda>ts. Inr (t # ts)))"

fun compose_loop :: "transform list \<Rightarrow> mat3 \<times> vec3 \<times> vec3 \<Rightarrow> error + (mat3 \<times> vec3 \<times> vec3)" where
  "compose_loop [] (mat, c, t) = Inr (mat, c, t)"
| "compose_loop (curr_tx # rest) (mat, c, t) =
     and_then (GetMatrix curr_tx) (\<lambda>mat_curr.
     and_then (GetCenter curr_tx) (\<lambda>c_curr.
     and_then (GetTranslation curr_tx) (\<lambda>t_curr.
       compose_loop rest
         (dot_mm mat_curr mat, c, dot_mv mat_curr (t + c - c_curr) + t_curr + c_curr - c))))"

definition compose_transforms :: "path list \<Rightarrow> path \<Rightarrow> filesystem \<Rightarrow> error + filesystem" where
  "compose_transforms transform_list output_filepath fs =
     and_then (read_all fs transform_list) (\<lambda>transforms.
     and_then (compose_loop (rev transforms) (eye3, zeros3, zeros3)) (\<lambda>(mat, c, t).
     and_then (SetMatrix Euler3DTransform_new mat) (\<lambda>output_tfm.
       Inr (WriteTransform (Euler3DTransform (output_tfm\<lparr>translation := t, center := c\<rparr>))
              output_filepath fs))))"

section \<open>The orchestrator\<close>

text \<open>
  \<^verbatim>\<open>main\<close> (lines 136 to 512) parses its arguments, runs the external tools one after
  the other (\<^verbatim>\<open>subprocess.run(..., check=True)\<close>: a failing tool ends the run) and, in
  between, calls the three functions above. Its control flow depends on the arguments
  only. The model gives the stages in which it decides something: the choice of the
  inputs of the refinement (lines 281 to 407), the command line of the refinement (lines
  421 to 463), the combination with a prior transform (lines 473 to 479) and the command
  line of the final resampling (lines 484 to 501); and it gives the final stages as a
  whole (lines 466 to 512), from the extraction of the refined transform to the
  publication, with the external tools as a parameter. Command lines are lists of
  strings; a path in one stands for \<^verbatim>\<open>str(path)\<close>, as \<^verbatim>\<open>subprocess\<close> passes it.
\<close>

record parsed_args =
  moving_image :: path
  fixed_image :: path
  fixed_brainmask :: path
  fixed_regmask :: "path option"
  fixed_transform :: "path option"
  fixed_target :: "path option"
  scale_fixed :: bool
  num_threads :: int
  output_dir :: path

text \<open>
  \<^verbatim>\<open>fmt % args\<close> for a format whose only directives are \<^verbatim>\<open>%s\<close>, with as many
  arguments as directives.
\<close>

fun percent :: "string \<Rightarrow> string list \<Rightarrow> string" where
  "percent [] args = []"
| "percent [c] args = [c]"
| "percent (c # d # rest) args =
     (if c = CHR ''%'' \<and> d = CHR ''s''
      then (case args of [] \<Rightarrow> c # d # percent rest [] | a # args' \<Rightarrow> a @ percent rest args')
      else c # percent (d # rest) args)"

text \<open>Line 229: the prior transform and the prior target come together or not at all.\<close>

definition check_fixed_pair :: "parsed_args \<Rightarrow> error + unit" where
  "check_fixed_pair args =
     (if (fixed_transform args = None) \<noteq> (fixed_target args = None)
      then Inl ValueError else Inr ())"

text \<open>
  Lines 281 to 407: what the two branches of the initial registration leave in
  \<^verbatim>\<open>init_transform_to_use\<close>, \<^verbatim>\<open>fixed_to_use\<close>, \<^verbatim>\<open>fixed_brainmask_to_use\<close> and
  \<^verbatim>\<open>fixed_regmask_to_use\<close>. With \<^verbatim>\<open>--scale-fixed\<close> they are the rigid part the
  decomposition wrote and the scaled copies of the image and the masks in the temporary
  directory; without it, the estimator's rigid transform and the arguments themselves.
\<close>

record refinement_inputs =
  init_transform_to_use :: path
  fixed_to_use :: path
  fixed_brainmask_to_use :: path
  fixed_regmask_to_use :: "path option"

definition inputs_to_use :: "parsed_args \<Rightarrow> path \<Rightarrow> path \<Rightarrow> refinement_inputs" where
  "inputs_to_use args temp_dir rigid_transform =
     (if scale_fixed args
      then \<lparr>init_transform_to_use = rigid_transform,
            fixed_to_use = path_join temp_dir ''scaled_fixed.nii.gz'',
            fixed_brainmask_to_use = path_join temp_dir ''scaled_fixed_brainmask.nii.gz'',
            fixed_regmask_to_use =
              (if fixed_regmask args \<noteq> None
               then Some (path_join temp_dir ''scaled_fixed_regmask.nii.gz'') else None)\<rparr>
      else \<lparr>init_transform_to_use = path_join temp_dir ''ai_rigid.mat'',
            fixed_to_use = fixed_image args,
            fixed_brainmask_to_use = fixed_brainmask args,
            fixed_regmask_to_use = fixed_regmask args\<rparr>)"

text \<open>
  Lines 421 to 463: the command line of the two-stage refinement. The first
  \<^verbatim>\<open>--masks\<close> value is the expression of line 450,
  \<^verbatim>\<open>"[%s,None]" % "None" if fixed_regmask_to_use is None else fixed_regmask_to_use\<close>,
  in which \<^verbatim>\<open>%\<close> binds tighter than the conditional: the format is applied in the
  \<^verbatim>\<open>None\<close> branch only. The second is the expression of line 462.
\<close>

definition stage_one_masks :: "path option \<Rightarrow> string" where
  "stage_one_masks regmask_to_use =
     (case regmask_to_use of
        None \<Rightarrow> percent ''[%s,None]'' [''None'']
      | Some regmask \<Rightarrow> path_str regmask)"

definition stage_two_masks :: "path \<Rightarrow> string" where
  "stage_two_masks brainmask_to_use = percent ''[%s,None]'' [path_str brainmask_to_use]"

definition reg_cmd :: "path \<Rightarrow> path \<Rightarrow> refinement_inputs \<Rightarrow> string list" where
  "reg_cmd temp_dir moving inputs =
     [''antsRegistration'',
      ''--dimensionality'', ''3'',
      ''--random-seed'', ''0'',
      ''--verbose'', ''1'',
      ''--output'', path_str (path_join temp_dir ''output''),
      ''--initialize-transforms-per-stage'', ''1'',
      ''--write-composite-transform'', ''1'',
      ''--collapse-output-transforms'', ''0'',
      ''--initial-moving-transform'', path_str (init_transform_to_use inputs),
      ''--metric'',
      percent ''Mattes[%s,%s,1.0,32,Regular,0.25]'' [path_str (fixed_to_use inputs), path_str moving],
      ''--transform'', ''Rigid[0.1]'',
      ''--convergence'', ''[2000x1000x500x250,1e-6,10]'',
      ''--smoothing-sigmas'', ''4x3x2x1'',
      ''--shrink-factors'', ''16x8x4x2'',
      ''--masks'', stage_one_masks (fixed_regmask_to_use inputs),
      ''--metric'',
      percent ''Mattes[%s,%s,1.0,32,Regular,0.25]'' [path_str (fixed_to_use inputs), path_str moving],
      ''--transform'', ''Rigid[0.1]'',
      ''--convergence'', ''[500x250x100,1e-6,10]'',
      ''--smoothing-sigmas'', ''2x1x0'',
      ''--shrink-factors'', ''4x2x1'',
      ''--masks'', stage_two_masks (fixed_brainmask_to_use inputs)]"

text \<open>
  Lines 473 to 479: with a prior transform, the refined transform and the prior one are
  composed into \<^verbatim>\<open>combined.mat\<close>, which becomes the transform to use, and the target
  is \<^verbatim>\<open>parsed_args.fixed_target\<close>; without, the refined transform and the fixed image
  are used as they are. The model returns the file system with \<^verbatim>\<open>transform_to_use\<close>
  and \<^verbatim>\<open>target_to_use\<close>.
\<close>

definition combine_transforms ::
  "parsed_args \<Rightarrow> path \<Rightarrow> path \<Rightarrow> filesystem \<Rightarrow> error + (filesystem \<times> path \<times> path option)" where
  "combine_transforms args temp_dir rigid_mat fs =
     (case fixed_transform args of
        Some prior \<Rightarrow>
          and_then (compose_transforms [rigid_mat, prior] (path_join temp_dir ''combined.mat'') fs)
            (\<lambda>fs'. Inr (fs', path_join temp_dir ''combined.mat'', fixed_target args))
      | None \<Rightarrow> Inr (fs, rigid_mat, Some (fixed_image args)))"

text \<open>
  Lines 484 to 501: the command line that resamples the moving image onto the target
  with the transform to use.
\<close>

definition transform_cmd :: "path \<Rightarrow> path \<Rightarrow> path \<Rightarrow> path \<Rightarrow> string list" where
  "transform_cmd moving target_to_use temp_dir transform_to_use =
     [''antsApplyTransforms'',
      ''--dimensionality'', ''3'',
      ''--input'', path_str moving,
      ''--reference-image'', path_str target_to_use,
      ''--output'', path_str (path_join temp_dir ''output.nii.gz''),
      ''--interpolation'', ''BSpline[3]'',
      ''--output-data-type'', ''float'',
      ''--transform'', path_str transform_to_use,
      ''--verbose'']"

text \<open>
  Lines 233 to 240: the names \<^verbatim>\<open>main\<close> derives from its arguments.
  \<^verbatim>\<open>name.split(".")[0]\<close> is the name up to its first dot; \<^verbatim>\<open>"".join(suffixes)\<close> is
  the name from its first dot on, leading dots apart, and nothing when the name ends
  with a dot.
\<close>

definition moving_stem :: "parsed_args \<Rightarrow> string" where
  "moving_stem args = takeWhile (\<lambda>c. c \<noteq> CHR ''.'') (path_name (moving_image args))"

definition fixed_stem :: "parsed_args \<Rightarrow> string" where
  "fixed_stem args = takeWhile (\<lambda>c. c \<noteq> CHR ''.'') (path_name (fixed_image args))"

definition ext :: "parsed_args \<Rightarrow> string" where
  "ext args =
     (let name = path_name (moving_image args)
      in if name \<noteq> [] \<and> last name = CHR ''.'' then []
         else dropWhile (\<lambda>c. c \<noteq> CHR ''.'') (dropWhile (\<lambda>c. c = CHR ''.'') name))"

definition temp_dir :: "parsed_args \<Rightarrow> path" where
  "temp_dir args = path_join (output_dir args) (moving_stem args @ ''__'' @ fixed_stem args)"

text \<open>
  \<^verbatim>\<open>clip_to_input_range\<close>, lines 118 to 133: both images are loaded, the data of the
  first is clipped to the minimum and the maximum of the data of the second
  (\<^verbatim>\<open>np.clip\<close>; \<^verbatim>\<open>min()\<close> of an empty array raises \<^verbatim>\<open>ValueError\<close>), and the
  result is written over the first file with the first image's header.
\<close>

definition clip_to_input_range :: "path \<Rightarrow> path \<Rightarrow> filesystem \<Rightarrow> error + filesystem" where
  "clip_to_input_range img_path input_path fs =
     and_then (Nifti1Image_load fs img_path) (\<lambda>img_obj.
     and_then (Nifti1Image_load fs input_path) (\<lambda>input_obj.
       case fdata input_obj of
         [] \<Rightarrow> Inl ValueError
       | x # xs \<Rightarrow>
           let lo = fold min xs x;
               hi = fold max xs x;
               img_data = map (\<lambda>v. min (max v lo) hi) (fdata img_obj)
           in Inr (fs(img_path \<mapsto> NiftiFile (img_obj\<lparr>fdata := img_data\<rparr>)))))"

text \<open>
  \<^verbatim>\<open>Path.rename\<close> moves a file (and raises \<^verbatim>\<open>FileNotFoundError\<close> when there is
  none); \<^verbatim>\<open>shutil.rmtree\<close> removes everything at or below a directory.
\<close>

definition rename :: "path \<Rightarrow> path \<Rightarrow> filesystem \<Rightarrow> error + filesystem" where
  "rename src dst fs =
     (case fs src of None \<Rightarrow> Inl FileNotFoundError | Some f \<Rightarrow> Inr ((fs(src := None))(dst \<mapsto> f)))"

definition rmtree :: "path \<Rightarrow> filesystem \<Rightarrow> filesystem" where
  "rmtree dir fs = (\<lambda>p. if take (length dir) p = dir then None else fs p)"

text \<open>
  The external tools are a parameter of the model: for a command line and a file system,
  the file system the tool leaves, or nothing when it exits with a non-zero status.
  \<^verbatim>\<open>subprocess.run(cmd, check=True)\<close> runs the tool and raises
  \<^verbatim>\<open>CalledProcessError\<close> on a non-zero status. The state of a run is the file system
  with the list of the command lines run so far.
\<close>

type_synonym external_tools = "string list \<Rightarrow> filesystem \<Rightarrow> filesystem option"

type_synonym run_state = "filesystem \<times> string list list"

definition subprocess_run :: "external_tools \<Rightarrow> string list \<Rightarrow> run_state \<Rightarrow> error + run_state" where
  "subprocess_run tools cmd state =
     (case state of (fs, cmds) \<Rightarrow>
        (case tools cmd fs of
           None \<Rightarrow> Inl CalledProcessError
         | Some fs' \<Rightarrow> Inr (fs', cmds @ [cmd])))"

text \<open>
  Lines 481 to 512: the moving image is resampled onto the target with the transform to
  use, the output is clipped to the range of the moving image, the output image and the
  transform to use are renamed into the output directory, and the temporary directory is
  removed.
\<close>

definition resample_and_publish ::
  "external_tools \<Rightarrow> parsed_args \<Rightarrow> path \<Rightarrow> path \<Rightarrow> run_state \<Rightarrow> error + run_state" where
  "resample_and_publish tools args transform_to_use target_to_use state =
     and_then (subprocess_run tools
                 (transform_cmd (moving_image args) target_to_use (temp_dir args) transform_to_use)
                 state) (\<lambda>(fs1, cmds).
     and_then (clip_to_input_range (path_join (temp_dir args) ''output.nii.gz'')
                 (moving_image args) fs1) (\<lambda>fs2.
     and_then (rename (path_join (temp_dir args) ''output.nii.gz'')
                 (path_join (output_dir args) (moving_stem args @ ''_reg'' @ ext args)) fs2) (\<lambda>fs3.
     and_then (rename transform_to_use
                 (path_join (output_dir args)
                    (moving_stem args @ ''_reg'' @ path_suffix transform_to_use)) fs3) (\<lambda>fs4.
       Inr (rmtree (temp_dir args) fs4, cmds)))))"

text \<open>
  Lines 466 to 512, the final stages of \<^verbatim>\<open>main\<close>, from the state the refinement
  leaves: the refined transform is extracted from \<^verbatim>\<open>outputComposite.h5\<close>, combined
  with the prior transform if there is one, and the run ends with the resampling and the
  publication. (A target that is \<^verbatim>\<open>None\<close> in the command line is a \<^verbatim>\<open>TypeError\<close>
  of \<^verbatim>\<open>subprocess\<close>; the check of line 229 keeps a run from getting there.)
\<close>

definition main_final_stages :: "external_tools \<Rightarrow> parsed_args \<Rightarrow> run_state \<Rightarrow> error + run_state" where
  "main_final_stages tools args state =
     (case state of (fs, cmds) \<Rightarrow>
        and_then (extract_from_composite (path_join (temp_dir args) ''outputComposite.h5'') fs)
          (\<lambda>(fs1, rigid_mat).
        and_then (combine_transforms args (temp_dir args) rigid_mat fs1)
          (\<lambda>(fs2, transform_to_use, target_to_use).
             (case target_to_use of
                None \<Rightarrow> Inl TypeError
              | Some target \<Rightarrow> resample_and_publish tools args transform_to_use target (fs2, cmds)))))"

section \<open>The specification's side\<close>

text \<open>
  A rigid transform, in the specification's data model, has an orthonormal rotation
  matrix. In exact arithmetic that is \<open>M \<cdot> M\<^sup>T = I\<close>.
\<close>

definition orthogonal :: "mat3 \<Rightarrow> bool" where
  "orthogonal M = (dot_mm M (transpose3 M) = eye3)"

text \<open>
  Section 4.2 of the specification words the composition as a fold: the accumulators
  start at the identity rotation, the origin as center and the zero translation; the
  sequence is gone through in reverse, and a transform \<open>Tk\<close> with rotation \<open>Rk\<close>,
  center \<open>Ck\<close> and translation \<open>tk\<close> turns the accumulators \<open>(R, c, t)\<close> into
  \<open>(Rk\<cdot>R, c, Rk\<cdot>(t + c - Ck) + tk + Ck - c)\<close>. \<open>foldr\<close> applies the step of the
  last element first.
\<close>

definition spec_fold_step :: "euler3d \<Rightarrow> mat3 \<times> vec3 \<times> vec3 \<Rightarrow> mat3 \<times> vec3 \<times> vec3" where
  "spec_fold_step Tk acc =
     (case acc of (R, c, t) \<Rightarrow>
        (dot_mm (matrix Tk) R, c,
         dot_mv (matrix Tk) (t + c - center Tk) + translation Tk + center Tk - c))"

definition spec_fold :: "euler3d list \<Rightarrow> mat3 \<times> vec3 \<times> vec3" where
  "spec_fold Ts = foldr spec_fold_step Ts (eye3, zeros3, zeros3)"

text \<open>
  Section 4.1 of the specification speaks of the two transforms the decomposition
  produces. They are what the two files the function returns hold: \<open>decompose\<close> runs
  \<^verbatim>\<open>extract_rigid_transform\<close> and reads both back, the inverse-scale transform first.
\<close>

definition decompose :: "path \<Rightarrow> path \<Rightarrow> filesystem \<Rightarrow> error + (transform \<times> transform)" where
  "decompose transform target fs =
     and_then (extract_rigid_transform transform target fs) (\<lambda>(fs', inv_scale, rigid_transform).
     and_then (ReadTransform fs' inv_scale) (\<lambda>inverseScale.
     and_then (ReadTransform fs' rigid_transform) (\<lambda>rigid.
       Inr (inverseScale, rigid))))"

text \<open>The values a command line gives to an option: the argument after each occurrence.\<close>

fun option_values :: "string list \<Rightarrow> string \<Rightarrow> string list" where
  "option_values [] name = []"
| "option_values [a] name = []"
| "option_values (a # b # rest) name =
     (if a = name then b # option_values rest name else option_values (b # rest) name)"

text \<open>
  The durable output location of the final transform: \<^verbatim>\<open>{moving_stem}_reg.mat\<close> in the
  output directory.
\<close>

definition published_transform :: "parsed_args \<Rightarrow> path" where
  "published_transform args = path_join (output_dir args) (moving_stem args @ ''_reg.mat'')"

section \<open>Example data\<close>

text \<open>
  Three rigid transforms with distinct centers (quarter turns about the third and the
  first axis, a half turn about the second), the inverse of the first, a similarity
  transform of scale 2, and a file system that holds them with a fixed image and two
  composite transforms.
\<close>

definition example_A :: euler3d where
  "example_A = \<lparr>matrix = Mat3 (Vec3 0 (- 1) 0) (Vec3 1 0 0) (Vec3 0 0 1),
                 center = Vec3 1 2 3, translation = Vec3 4 5 6\<rparr>"

definition example_B :: euler3d where
  "example_B = \<lparr>matrix = Mat3 (Vec3 1 0 0) (Vec3 0 0 (- 1)) (Vec3 0 1 0),
                 center = Vec3 (- 1) 0 2, translation = Vec3 0 1 0\<rparr>"

definition example_C :: euler3d where
  "example_C = \<lparr>matrix = Mat3 (Vec3 (- 1) 0 0) (Vec3 0 1 0) (Vec3 0 0 (- 1)),
                 center = Vec3 7 8 9, translation = Vec3 1 1 1\<rparr>"

definition example_A_inverse :: euler3d where
  "example_A_inverse = \<lparr>matrix = Mat3 (Vec3 0 1 0) (Vec3 (- 1) 0 0) (Vec3 0 0 1),
                         center = Vec3 1 2 3, translation = Vec3 (- 5) 4 (- 6)\<rparr>"

definition example_similarity :: similarity3d where
  "example_similarity = \<lparr>rotation = Mat3 (Vec3 0 (- 1) 0) (Vec3 1 0 0) (Vec3 0 0 1), scale = 2,
                          sim_center = Vec3 1 2 3, sim_translation = Vec3 4 5 6\<rparr>"

definition example_image :: nifti where
  "example_image = \<lparr>shape = [256, 240, 176], zooms = [1 / 2, 1, 1],
                     fdata = replicate (256 * 240 * 176) 0\<rparr>"

definition example_fs :: filesystem where
  "example_fs = map_of
     [([''work'', ''A.mat''], TransformFile (Euler3DTransform example_A)),
      ([''work'', ''B.mat''], TransformFile (Euler3DTransform example_B)),
      ([''work'', ''C.mat''], TransformFile (Euler3DTransform example_C)),
      ([''work'', ''A_inverse.mat''], TransformFile (Euler3DTransform example_A_inverse)),
      ([''work'', ''ai.mat''], TransformFile (Similarity3DTransform example_similarity)),
      ([''work'', ''outputComposite.h5''],
         TransformFile (CompositeTransform [Euler3DTransform example_A])),
      ([''work'', ''twoComposite.h5''],
         TransformFile (CompositeTransform [Euler3DTransform example_A, Euler3DTransform example_B])),
      ([''work'', ''scaledComposite.h5''],
         TransformFile (CompositeTransform [Similarity3DTransform example_similarity])),
      ([''data'', ''fixed.nii.gz''], NiftiFile example_image)]"

definition example_args :: parsed_args where
  "example_args =
     \<lparr>moving_image = [''data'', ''moving.nii.gz''],
      fixed_image = [''data'', ''fixed.nii.gz''],
      fixed_brainmask = [''data'', ''fixed_brainmask.nii.gz''],
      fixed_regmask = Some [''data'', ''fixed_regmask.nii.gz''],
      fixed_transform = Some [''work'', ''B.mat''],
      fixed_target = Some [''data'', ''atlas.nii.gz''],
      scale_fixed = False,
      num_threads = 1,
      output_dir = [''out'']\<rparr>"

definition example_args_no_prior :: parsed_args where
  "example_args_no_prior = example_args\<lparr>fixed_transform := None, fixed_target := None\<rparr>"

definition example_temp_dir :: path where
  "example_temp_dir = [''out'', ''moving__fixed'']"

text \<open>
  A run of the final stages: the state the refinement leaves (its composite output in the
  temporary directory, the moving image with four voxels), and a resampler that writes
  its output image and touches nothing else (it refuses to overwrite a transform).
\<close>

definition example_moving :: nifti where
  "example_moving = \<lparr>shape = [2, 2, 1], zooms = [1, 1, 1], fdata = [0, 10, 20, 30]\<rparr>"

definition example_resampled :: nifti where
  "example_resampled = \<lparr>shape = [2, 2, 1], zooms = [1, 1, 1], fdata = [- 3, 5, 35, 12]\<rparr>"

definition example_run_fs :: filesystem where
  "example_run_fs = example_fs
     ([''out'', ''moving__fixed'', ''outputComposite.h5''] \<mapsto>
        TransformFile (CompositeTransform [Euler3DTransform example_A]),
      [''data'', ''moving.nii.gz''] \<mapsto> NiftiFile example_moving)"

definition example_tools :: external_tools where
  "example_tools cmd fs =
     (case fs [''out'', ''moving__fixed'', ''output.nii.gz''] of
        Some (TransformFile t) \<Rightarrow> None
      | _ \<Rightarrow> Some (fs([''out'', ''moving__fixed'', ''output.nii.gz''] \<mapsto> NiftiFile example_resampled)))"

section \<open>Vector and matrix algebra: lemmas\<close>

lemma zeros3_eq_0 [simp]: "zeros3 = 0"
  by (simp add: zeros3_def zero_vec3_def)

lemma dot_mv_add: "dot_mv M (u + v) = dot_mv M u + dot_mv M v"
  by (cases M rule: transpose3.cases; cases u; cases v) (simp add: algebra_simps)

lemma dot_mv_diff: "dot_mv M (u - v) = dot_mv M u - dot_mv M v"
  by (cases M rule: transpose3.cases; cases u; cases v) (simp add: algebra_simps)

lemma dot_mv_dot_mm: "dot_mv (dot_mm A B) v = dot_mv A (dot_mv B v)"
  by (cases A rule: transpose3.cases; cases B rule: transpose3.cases; cases v)
    (simp add: algebra_simps)

lemma dot_mm_assoc: "dot_mm (dot_mm A B) C = dot_mm A (dot_mm B C)"
  by (cases A rule: transpose3.cases; cases B rule: transpose3.cases;
      cases C rule: transpose3.cases) (simp add: algebra_simps)

lemma transpose3_dot_mm: "transpose3 (dot_mm A B) = dot_mm (transpose3 B) (transpose3 A)"
  by (cases A rule: transpose3.cases; cases B rule: transpose3.cases) (simp add: algebra_simps)

lemma dot_mm_eye_left [simp]: "dot_mm eye3 A = A"
  by (cases A rule: transpose3.cases) (simp add: eye3_def)

lemma dot_mm_eye_right [simp]: "dot_mm A eye3 = A"
  by (cases A rule: transpose3.cases) (simp add: eye3_def)

lemma dot_mv_eye [simp]: "dot_mv eye3 v = v"
  by (cases v) (simp add: eye3_def)

lemma transpose3_eye [simp]: "transpose3 eye3 = eye3"
  by (simp add: eye3_def)

lemma scale_mat_one [simp]: "scale_mat 1 M = M"
  by (cases M rule: transpose3.cases) simp

lemma dot_mv_fixes_all_points:
  assumes "\<And>p. dot_mv M p = p"
  shows "M = eye3"
proof -
  obtain a b c d e f g h i where M: "M = Mat3 (Vec3 a b c) (Vec3 d e f) (Vec3 g h i)"
    by (cases M rule: transpose3.cases) blast
  from assms[of "Vec3 1 0 0"] assms[of "Vec3 0 1 0"] assms[of "Vec3 0 0 1"]
  show ?thesis by (simp add: M eye3_def)
qed

lemma orthogonal_eye: "orthogonal eye3"
  by (simp add: orthogonal_def)

lemma orthogonal_dot_mm:
  assumes "orthogonal A" and "orthogonal B"
  shows "orthogonal (dot_mm A B)"
proof -
  have "dot_mm (dot_mm A B) (transpose3 (dot_mm A B))
        = dot_mm A (dot_mm (dot_mm B (transpose3 B)) (transpose3 A))"
    by (simp add: transpose3_dot_mm dot_mm_assoc)
  also have "\<dots> = eye3"
    using assms by (simp add: orthogonal_def)
  finally show ?thesis by (simp add: orthogonal_def)
qed

section \<open>Results and files: lemmas\<close>

lemma and_then_Inr [simp]: "and_then (Inr x) f = f x"
  by (simp add: and_then_def)

lemma and_then_Inl [simp]: "and_then (Inl e) f = Inl e"
  by (simp add: and_then_def)

lemma orthogonal_MatrixIsOrthogonal: "orthogonal M \<Longrightarrow> MatrixIsOrthogonal M default_tolerance"
  by (simp add: MatrixIsOrthogonal_def orthogonal_def eye3_def default_tolerance_def)

lemma orthogonal_SetMatrix: "orthogonal M \<Longrightarrow> SetMatrix e M = Inr (e\<lparr>matrix := M\<rparr>)"
  by (simp add: SetMatrix_def orthogonal_MatrixIsOrthogonal)

lemma read_all_map:
  "map fs ps = map (\<lambda>t. Some (TransformFile t)) ts \<Longrightarrow> read_all fs ps = Inr ts"
proof (induction ps arbitrary: ts)
  case Nil
  then show ?case by simp
next
  case (Cons p ps)
  then obtain t ts' where ts: "ts = t # ts'" "fs p = Some (TransformFile t)"
      "map fs ps = map (\<lambda>t. Some (TransformFile t)) ts'"
    by (cases ts) auto
  then show ?case using Cons.IH[of ts'] by (simp add: ReadTransform_def)
qed

section \<open>Composition of rigid transforms\<close>

lemma compose_loop_euler:
  "compose_loop (map Euler3DTransform Ts) acc = Inr (foldl (\<lambda>a T. spec_fold_step T a) acc Ts)"
proof (induction Ts arbitrary: acc)
  case Nil
  show ?case by (cases acc) simp
next
  case (Cons T Ts)
  show ?case by (cases acc) (simp add: Cons.IH spec_fold_step_def)
qed

lemma compose_loop_rev_euler:
  "compose_loop (rev (map Euler3DTransform Ts)) (eye3, 0, 0) = Inr (spec_fold Ts)"
  by (simp add: compose_loop_euler spec_fold_def foldr_conv_foldl rev_map)

lemma spec_fold_point:
  "\<exists>R t. spec_fold Ts = (R, 0, t) \<and> (\<forall>p. dot_mv R p + t = foldr TransformPoint Ts p)"
proof (induction Ts)
  case Nil
  show ?case by (simp add: spec_fold_def)
next
  case (Cons T Ts)
  then obtain R t where IH: "spec_fold Ts = (R, 0, t)"
      "\<And>p. dot_mv R p + t = foldr TransformPoint Ts p"
    by auto
  have step: "spec_fold (T # Ts) = spec_fold_step T (R, 0, t)"
    using IH(1) by (simp add: spec_fold_def)
  have pt: "dot_mv (dot_mm (matrix T) R) p
              + (dot_mv (matrix T) (t - center T) + translation T + center T)
            = TransformPoint T (dot_mv R p + t)" for p
    by (simp add: TransformPoint_def dot_mv_dot_mm dot_mv_add dot_mv_diff algebra_simps)
  show ?case
    by (simp add: step spec_fold_step_def pt IH(2))
qed

lemma spec_fold_orthogonal:
  "\<forall>T\<in>set Ts. orthogonal (matrix T) \<Longrightarrow> orthogonal (fst (spec_fold Ts))"
proof (induction Ts)
  case Nil
  show ?case by (simp add: spec_fold_def orthogonal_eye)
next
  case (Cons T Ts)
  then have "orthogonal (fst (spec_fold Ts))" and "orthogonal (matrix T)"
    by simp_all
  then show ?case
    by (cases "spec_fold Ts") (simp add: orthogonal_dot_mm spec_fold_def spec_fold_step_def)
qed

lemma compose_transforms_euler:
  assumes files: "map fs transform_list = map (\<lambda>T. Some (TransformFile (Euler3DTransform T))) Ts"
      and fold: "spec_fold Ts = (R, c, t)"
      and ok: "MatrixIsOrthogonal R default_tolerance"
  shows "compose_transforms transform_list output_filepath fs
           = Inr (fs(output_filepath \<mapsto>
                     TransformFile (Euler3DTransform \<lparr>matrix = R, center = c, translation = t\<rparr>)))"
proof -
  have "map fs transform_list = map (\<lambda>t. Some (TransformFile t)) (map Euler3DTransform Ts)"
    using files by simp
  then have rd: "read_all fs transform_list = Inr (map Euler3DTransform Ts)"
    by (rule read_all_map)
  show ?thesis
    by (simp add: compose_transforms_def rd compose_loop_rev_euler fold SetMatrix_def ok
        WriteTransform_def Euler3DTransform_new_def)
qed

text \<open>
  Claim C1. For every ordered sequence \<open>[T0, ..., Tn-1]\<close> of rigid transforms, each with
  its own rotation, center and translation, \<^verbatim>\<open>compose_transforms\<close> succeeds and writes
  one rigid transform \<open>out\<close>: its rotation, center and translation are what the fold of
  the specification computes (the sequence taken in reverse, \<open>R' = Rk\<cdot>R\<close> and
  \<open>t' = Rk\<cdot>(t + c - Ck) + tk + Ck - c\<close>, the center held at the origin), its center
  is the origin, and it maps every point \<open>p\<close> to \<open>T0(T1(...(Tn-1(p))...))\<close>. The
  empty sequence is included.
\<close>

theorem compose_transforms_applies_last_to_first:
  assumes files: "map fs transform_list = map (\<lambda>T. Some (TransformFile (Euler3DTransform T))) Ts"
      and rigid: "\<forall>T\<in>set Ts. orthogonal (matrix T)"
  shows "\<exists>out. compose_transforms transform_list output_filepath fs
                 = Inr (fs(output_filepath \<mapsto> TransformFile (Euler3DTransform out)))
           \<and> (matrix out, center out, translation out) = spec_fold Ts
           \<and> center out = zeros3
           \<and> (\<forall>p. TransformPoint out p = foldr TransformPoint Ts p)"
proof -
  from spec_fold_point obtain R t where
    fold: "spec_fold Ts = (R, 0, t)" and pt: "\<And>p. dot_mv R p + t = foldr TransformPoint Ts p"
    by blast
  from spec_fold_orthogonal[OF rigid] fold have "orthogonal R"
    by simp
  then have ok: "MatrixIsOrthogonal R default_tolerance"
    by (rule orthogonal_MatrixIsOrthogonal)
  let ?out = "\<lparr>matrix = R, center = 0, translation = t\<rparr>"
  have "compose_transforms transform_list output_filepath fs
          = Inr (fs(output_filepath \<mapsto> TransformFile (Euler3DTransform ?out)))"
    by (rule compose_transforms_euler[OF files fold ok])
  moreover have "TransformPoint ?out p = foldr TransformPoint Ts p" for p
    using pt[of p] by (simp add: TransformPoint_def)
  ultimately show ?thesis
    using fold by (intro exI[of _ ?out]) simp
qed

lemma example_fs_simps:
  "example_fs [''work'', ''A.mat''] = Some (TransformFile (Euler3DTransform example_A))"
  "example_fs [''work'', ''B.mat''] = Some (TransformFile (Euler3DTransform example_B))"
  "example_fs [''work'', ''C.mat''] = Some (TransformFile (Euler3DTransform example_C))"
  "example_fs [''work'', ''A_inverse.mat'']
     = Some (TransformFile (Euler3DTransform example_A_inverse))"
  "example_fs [''work'', ''ai.mat'']
     = Some (TransformFile (Similarity3DTransform example_similarity))"
  "example_fs [''work'', ''outputComposite.h5'']
     = Some (TransformFile (CompositeTransform [Euler3DTransform example_A]))"
  "example_fs [''work'', ''twoComposite.h5'']
     = Some (TransformFile (CompositeTransform
         [Euler3DTransform example_A, Euler3DTransform example_B]))"
  "example_fs [''work'', ''scaledComposite.h5'']
     = Some (TransformFile (CompositeTransform [Similarity3DTransform example_similarity]))"
  "example_fs [''data'', ''fixed.nii.gz''] = Some (NiftiFile example_image)"
  by (simp_all add: example_fs_def)

lemma example_orthogonal:
  "orthogonal (matrix example_A)" "orthogonal (matrix example_B)"
  "orthogonal (matrix example_C)" "orthogonal (matrix example_A_inverse)"
  "orthogonal (rotation example_similarity)"
  by (simp_all add: orthogonal_def eye3_def example_A_def example_B_def example_C_def
      example_A_inverse_def example_similarity_def)

theorem compose_transforms_applies_last_to_first_witness:
  "\<exists>out. compose_transforms [[''work'', ''A.mat''], [''work'', ''B.mat''], [''work'', ''C.mat'']]
            [''work'', ''combined.mat''] example_fs
          = Inr (example_fs([''work'', ''combined.mat''] \<mapsto> TransformFile (Euler3DTransform out)))
     \<and> (matrix out, center out, translation out) = spec_fold [example_A, example_B, example_C]
     \<and> center out = zeros3
     \<and> (\<forall>p. TransformPoint out p = foldr TransformPoint [example_A, example_B, example_C] p)"
  by (rule compose_transforms_applies_last_to_first)
    (simp_all add: example_fs_simps example_orthogonal)

text \<open>
  Claim C2, as amended. Composing the empty sequence does not fail: the loop body never
  runs, and the function writes the identity rigid transform (identity rotation, zero
  translation, center at the origin).
\<close>

theorem compose_transforms_empty:
  "compose_transforms [] output_filepath fs
     = Inr (fs(output_filepath \<mapsto>
         TransformFile (Euler3DTransform \<lparr>matrix = eye3, center = zeros3, translation = zeros3\<rparr>)))"
  by (simp add: compose_transforms_def orthogonal_SetMatrix orthogonal_eye WriteTransform_def
      Euler3DTransform_new_def)

text \<open>
  The claim as stated (the empty sequence fails with a composition error, and no identity
  transform is produced silently) is false on the code: on the example file system the
  call returns, and the file it wrote holds the default rigid transform.
\<close>

theorem compose_transforms_empty_counterexample:
  "compose_transforms [] [''work'', ''combined.mat''] example_fs
     = Inr (example_fs([''work'', ''combined.mat''] \<mapsto>
         TransformFile (Euler3DTransform Euler3DTransform_new)))"
  by (simp add: compose_transforms_def orthogonal_SetMatrix orthogonal_eye WriteTransform_def
      Euler3DTransform_new_def)

lemma GetInverse_euler_is_inverse:
  assumes "orthogonal (matrix T)" and "GetInverse (Euler3DTransform T) = Inr (Euler3DTransform U)"
  shows "TransformPoint T (TransformPoint U p) = p"
proof -
  have U: "U = \<lparr>matrix = transpose3 (matrix T), center = center T,
                translation = - dot_mv (transpose3 (matrix T)) (translation T)\<rparr>"
    using assms(2) by simp
  have cancel: "dot_mv (matrix T) (dot_mv (transpose3 (matrix T)) v) = v" for v
    using assms(1) by (simp add: orthogonal_def flip: dot_mv_dot_mm)
  show ?thesis
    by (simp add: U TransformPoint_def dot_mv_add dot_mv_diff cancel algebra_simps)
qed

text \<open>
  Claim C7. Whenever \<open>U\<close> is an inverse of the rigid transform \<open>T\<close>, however it was
  obtained (all that is used is that \<open>T\<close> after \<open>U\<close> maps every point to itself),
  \<^verbatim>\<open>compose_transforms\<close> of \<open>[T, U]\<close> writes the transform with the identity
  rotation and the zero translation (and the origin as center). In exact arithmetic the
  result is the identity itself, hence within every tolerance.
\<close>

theorem compose_transforms_with_inverse:
  assumes T: "fs T_file = Some (TransformFile (Euler3DTransform T))"
      and U: "fs U_file = Some (TransformFile (Euler3DTransform U))"
      and inverse: "\<forall>p. TransformPoint T (TransformPoint U p) = p"
  shows "compose_transforms [T_file, U_file] output_filepath fs
           = Inr (fs(output_filepath \<mapsto>
               TransformFile (Euler3DTransform
                 \<lparr>matrix = eye3, center = zeros3, translation = zeros3\<rparr>)))"
proof -
  from spec_fold_point[of "[T, U]"] obtain R t where
    fold: "spec_fold [T, U] = (R, 0, t)"
    and pt: "\<And>p. dot_mv R p + t = TransformPoint T (TransformPoint U p)"
    by auto
  have fixed: "dot_mv R p + t = p" for p
    using pt[of p] inverse by simp
  have zero: "dot_mv R 0 = 0"
    by (cases R rule: transpose3.cases) (simp add: zero_vec3_def)
  from fixed[of 0] zero have t: "t = 0"
    by simp
  have R: "R = eye3"
    by (rule dot_mv_fixes_all_points) (use fixed t in simp)
  have files: "map fs [T_file, U_file]
                 = map (\<lambda>T. Some (TransformFile (Euler3DTransform T))) [T, U]"
    using T U by simp
  have "compose_transforms [T_file, U_file] output_filepath fs
          = Inr (fs(output_filepath \<mapsto>
              TransformFile (Euler3DTransform \<lparr>matrix = R, center = 0, translation = t\<rparr>)))"
    by (rule compose_transforms_euler[OF files fold])
      (simp add: R orthogonal_MatrixIsOrthogonal orthogonal_eye)
  then show ?thesis
    by (simp add: R t)
qed

theorem compose_transforms_with_inverse_witness:
  "compose_transforms [[''work'', ''A.mat''], [''work'', ''A_inverse.mat'']]
     [''work'', ''combined.mat''] example_fs
   = Inr (example_fs([''work'', ''combined.mat''] \<mapsto>
       TransformFile (Euler3DTransform \<lparr>matrix = eye3, center = zeros3, translation = zeros3\<rparr>)))"
proof (rule compose_transforms_with_inverse)
  show "example_fs [''work'', ''A.mat''] = Some (TransformFile (Euler3DTransform example_A))"
    by (simp add: example_fs_simps)
  show "example_fs [''work'', ''A_inverse.mat'']
          = Some (TransformFile (Euler3DTransform example_A_inverse))"
    by (simp add: example_fs_simps)
  have "GetInverse (Euler3DTransform example_A) = Inr (Euler3DTransform example_A_inverse)"
    by (simp add: example_A_def example_A_inverse_def)
  then show "\<forall>p. TransformPoint example_A (TransformPoint example_A_inverse p) = p"
    using GetInverse_euler_is_inverse[OF example_orthogonal(1)] by blast
qed

section \<open>Decomposition of a similarity transform\<close>

lemma path_join_eq [simp]: "path_join p a = path_join q b \<longleftrightarrow> p = q \<and> a = b"
  by (simp add: path_join_def)

lemma invscale_path_neq_rigid_path [simp]: "invscale_path p \<noteq> rigid_path p"
  by (simp add: invscale_path_def rigid_path_def)

lemma example_similarity_scale [simp]: "scale example_similarity = 2"
  by (simp add: example_similarity_def)

text \<open>
  What the function does on a similarity transform of non-zero scale whose rotation is
  orthonormal, for an image of three dimensions or more: both writes happen, under two
  different names.
\<close>

lemma extract_rigid_transform_similarity:
  assumes img: "fs target = Some (NiftiFile fixed_obj)"
      and tfm: "fs transform = Some (TransformFile (Similarity3DTransform tfm))"
      and nz: "scale tfm \<noteq> 0"
      and rot: "orthogonal (rotation tfm)"
      and shp: "shape fixed_obj = dim_x # dim_y # dim_z # more_dims"
      and zms: "zooms fixed_obj = spacing_x # more_spacings"
  shows "extract_rigid_transform transform target fs
           = Inr (fs(invscale_path transform \<mapsto> TransformFile (Similarity3DTransform
                       \<lparr>rotation = eye3, scale = 1 / scale tfm,
                        sim_center = Vec3 0 (real_of_int (dim_y - dim_z) * spacing_x)
                                            (real_of_int (dim_y - dim_z) * spacing_x),
                        sim_translation = zeros3\<rparr>),
                     rigid_path transform \<mapsto> TransformFile (Euler3DTransform
                       \<lparr>matrix = rotation tfm, center = sim_center tfm,
                        translation = sim_translation tfm\<rparr>)),
                  invscale_path transform, rigid_path transform)"
  by (simp add: extract_rigid_transform_def Nifti1Image_load_def ReadTransform_def img tfm nz
      shp zms getitem_def Similarity3DTransform_new_def Euler3DTransform_new_def
      WriteTransform_def orthogonal_SetMatrix[OF rot])

lemma decompose_similarity:
  assumes img: "fs target = Some (NiftiFile fixed_obj)"
      and tfm: "fs transform = Some (TransformFile (Similarity3DTransform tfm))"
      and nz: "scale tfm \<noteq> 0"
      and rot: "orthogonal (rotation tfm)"
      and shp: "shape fixed_obj = dim_x # dim_y # dim_z # more_dims"
      and zms: "zooms fixed_obj = spacing_x # more_spacings"
  shows "decompose transform target fs
           = Inr (Similarity3DTransform
                    \<lparr>rotation = eye3, scale = 1 / scale tfm,
                     sim_center = Vec3 0 (real_of_int (dim_y - dim_z) * spacing_x)
                                         (real_of_int (dim_y - dim_z) * spacing_x),
                     sim_translation = zeros3\<rparr>,
                  Euler3DTransform
                    \<lparr>matrix = rotation tfm, center = sim_center tfm,
                     translation = sim_translation tfm\<rparr>)"
  by (simp add: decompose_def extract_rigid_transform_similarity[OF assms] ReadTransform_def)

text \<open>The failures the hypotheses above exclude are branches of the model.\<close>

lemma extract_rigid_transform_zero_scale:
  assumes "fs target = Some (NiftiFile fixed_obj)"
      and "fs transform = Some (TransformFile (Similarity3DTransform tfm))"
      and "scale tfm = 0"
  shows "extract_rigid_transform transform target fs = Inl RuntimeError"
  using assms
  by (simp add: extract_rigid_transform_def Nifti1Image_load_def ReadTransform_def)

lemma extract_rigid_transform_flat_image:
  assumes "fs target = Some (NiftiFile fixed_obj)"
      and "fs transform = Some (TransformFile (Similarity3DTransform tfm))"
      and "scale tfm \<noteq> 0"
      and "length (shape fixed_obj) \<le> 2"
  shows "extract_rigid_transform transform target fs = Inl IndexError"
  using assms
  by (simp add: extract_rigid_transform_def Nifti1Image_load_def ReadTransform_def getitem_def
      and_then_def)

text \<open>
  Claim C4, as amended. For every similarity transform of non-zero scale \<open>s\<close> given to
  the decomposition (with an orthonormal rotation, for a fixed image of at least three
  dimensions), the scale of the inverse-scale transform produced is the scale of the
  inverse of the input transform, and that is \<open>1 / s\<close>, the reciprocal of the input's
  own scale.
\<close>

theorem inverse_scale_is_scale_of_inverse:
  assumes img: "fs target = Some (NiftiFile fixed_obj)"
      and tfm: "fs transform = Some (TransformFile (Similarity3DTransform tfm))"
      and nz: "scale tfm \<noteq> 0"
      and rot: "orthogonal (rotation tfm)"
      and shp: "shape fixed_obj = dim_x # dim_y # dim_z # more_dims"
      and zms: "zooms fixed_obj = spacing_x # more_spacings"
  shows "\<exists>inverseScale rigid.
           decompose transform target fs = Inr (Similarity3DTransform inverseScale, rigid)
           \<and> and_then (GetInverse (Similarity3DTransform tfm)) GetScale = Inr (scale inverseScale)
           \<and> scale inverseScale = 1 / scale tfm"
proof -
  have "and_then (GetInverse (Similarity3DTransform tfm)) GetScale = Inr (1 / scale tfm)"
    using nz by simp
  then show ?thesis
    by (simp add: decompose_similarity[OF assms])
qed

theorem inverse_scale_is_scale_of_inverse_witness:
  "\<exists>inverseScale rigid.
     decompose [''work'', ''ai.mat''] [''data'', ''fixed.nii.gz''] example_fs
       = Inr (Similarity3DTransform inverseScale, rigid)
     \<and> and_then (GetInverse (Similarity3DTransform example_similarity)) GetScale
         = Inr (scale inverseScale)
     \<and> scale inverseScale = 1 / scale example_similarity"
  by (rule inverse_scale_is_scale_of_inverse[where fixed_obj = example_image
        and dim_x = 256 and dim_y = 240 and dim_z = 176 and more_dims = "[]"
        and spacing_x = "1 / 2" and more_spacings = "[1, 1]"])
    (simp_all add: example_fs_simps example_orthogonal example_image_def)

text \<open>
  The claim as stated (the scale produced is the reciprocal of the scale of the input's
  inverse) is false on the code. The example similarity transform has scale 2: its
  inverse has scale 1/2, the inverse-scale transform the code writes has scale 1/2 too,
  and the reciprocal of the inverse's scale is 2.
\<close>

theorem inverse_scale_reciprocal_of_inverse_counterexample:
  "and_then (decompose [''work'', ''ai.mat''] [''data'', ''fixed.nii.gz''] example_fs)
      (\<lambda>(inverseScale, rigid). GetScale inverseScale) = Inr (1 / 2)
   \<and> and_then (GetInverse (Similarity3DTransform example_similarity)) GetScale = Inr (1 / 2)
   \<and> (1 / 2 :: real) \<noteq> 1 / (1 / 2)"
proof -
  have "decompose [''work'', ''ai.mat''] [''data'', ''fixed.nii.gz''] example_fs
          = Inr (Similarity3DTransform
                   \<lparr>rotation = eye3, scale = 1 / scale example_similarity,
                    sim_center = Vec3 0 (real_of_int (240 - 176) * (1 / 2))
                                        (real_of_int (240 - 176) * (1 / 2)),
                    sim_translation = zeros3\<rparr>,
                 Euler3DTransform
                   \<lparr>matrix = rotation example_similarity, center = sim_center example_similarity,
                    translation = sim_translation example_similarity\<rparr>)"
    by (rule decompose_similarity[where fixed_obj = example_image
          and dim_x = 256 and more_dims = "[]" and more_spacings = "[1, 1]"])
      (simp_all add: example_fs_simps example_orthogonal example_image_def)
  then show ?thesis
    by simp
qed

text \<open>
  Claim C5. For every call of the decomposition with a fixed image of shape
  \<open>(dim0, dim1, dim2, ...)\<close> and first-axis voxel spacing \<open>spacing0\<close> (on a similarity
  transform of non-zero scale with an orthonormal rotation), the center of the
  inverse-scale transform produced is exactly
  \<open>(0, (dim1 - dim2)\<cdot>spacing0, (dim1 - dim2)\<cdot>spacing0)\<close>.
\<close>

theorem inverse_scale_center:
  assumes img: "fs target = Some (NiftiFile fixed_obj)"
      and tfm: "fs transform = Some (TransformFile (Similarity3DTransform tfm))"
      and nz: "scale tfm \<noteq> 0"
      and rot: "orthogonal (rotation tfm)"
      and shp: "shape fixed_obj = dim_x # dim_y # dim_z # more_dims"
      and zms: "zooms fixed_obj = spacing_x # more_spacings"
  shows "\<exists>inverseScale rigid.
           decompose transform target fs = Inr (Similarity3DTransform inverseScale, rigid)
           \<and> sim_center inverseScale
               = Vec3 0 (real_of_int (dim_y - dim_z) * spacing_x)
                        (real_of_int (dim_y - dim_z) * spacing_x)"
proof -
  note result = decompose_similarity[OF assms]
  show ?thesis
    by (simp add: result)
qed

theorem inverse_scale_center_witness:
  "\<exists>inverseScale rigid.
     decompose [''work'', ''ai.mat''] [''data'', ''fixed.nii.gz''] example_fs
       = Inr (Similarity3DTransform inverseScale, rigid)
     \<and> sim_center inverseScale
         = Vec3 0 (real_of_int (240 - 176) * (1 / 2)) (real_of_int (240 - 176) * (1 / 2))"
  by (rule inverse_scale_center[where fixed_obj = example_image and tfm = example_similarity
        and dim_x = 256 and more_dims = "[]" and more_spacings = "[1, 1]"])
    (simp_all add: example_fs_simps example_orthogonal example_image_def)

text \<open>
  Claim C6. For every similarity transform given to the decomposition (non-zero scale,
  orthonormal rotation, a fixed image of at least three dimensions), the rigid transform
  produced has the matrix the input has once its scale is set to one, which is the
  input's rotation, and the input's translation and center. No scale is left in it: the
  input's own matrix is the rigid matrix times the input's scale, so for an input of unit
  scale (\<open>scale_mat_one\<close>) matrix, translation and center of the rigid transform are
  those of the input.
\<close>

theorem rigid_part_has_no_scale:
  assumes img: "fs target = Some (NiftiFile fixed_obj)"
      and tfm: "fs transform = Some (TransformFile (Similarity3DTransform tfm))"
      and nz: "scale tfm \<noteq> 0"
      and rot: "orthogonal (rotation tfm)"
      and shp: "shape fixed_obj = dim_x # dim_y # dim_z # more_dims"
      and zms: "zooms fixed_obj = spacing_x # more_spacings"
  shows "\<exists>inverseScale rigid.
           decompose transform target fs = Inr (inverseScale, Euler3DTransform rigid)
           \<and> and_then (SetScale (Similarity3DTransform tfm) 1) GetMatrix = Inr (matrix rigid)
           \<and> matrix rigid = rotation tfm
           \<and> GetMatrix (Similarity3DTransform tfm) = Inr (scale_mat (scale tfm) (matrix rigid))
           \<and> GetTranslation (Similarity3DTransform tfm) = Inr (translation rigid)
           \<and> GetCenter (Similarity3DTransform tfm) = Inr (center rigid)"
proof -
  have "and_then (SetScale (Similarity3DTransform tfm) 1) GetMatrix = Inr (rotation tfm)"
    by simp
  then show ?thesis
    by (simp add: decompose_similarity[OF assms])
qed

theorem rigid_part_has_no_scale_witness:
  "\<exists>inverseScale rigid.
     decompose [''work'', ''ai.mat''] [''data'', ''fixed.nii.gz''] example_fs
       = Inr (inverseScale, Euler3DTransform rigid)
     \<and> and_then (SetScale (Similarity3DTransform example_similarity) 1) GetMatrix
         = Inr (matrix rigid)
     \<and> matrix rigid = rotation example_similarity
     \<and> GetMatrix (Similarity3DTransform example_similarity)
         = Inr (scale_mat (scale example_similarity) (matrix rigid))
     \<and> GetTranslation (Similarity3DTransform example_similarity) = Inr (translation rigid)
     \<and> GetCenter (Similarity3DTransform example_similarity) = Inr (center rigid)"
  by (rule rigid_part_has_no_scale[where fixed_obj = example_image
        and dim_x = 256 and dim_y = 240 and dim_z = 176 and more_dims = "[]"
        and spacing_x = "1 / 2" and more_spacings = "[1, 1]"])
    (simp_all add: example_fs_simps example_orthogonal example_image_def)

text \<open>
  Claim C10. For every similarity transform given to the decomposition (non-zero scale,
  orthonormal rotation, a fixed image of at least three dimensions), the inverse-scale
  transform produced carries scale and center only: its rotation is the identity and its
  translation is the zero vector, whatever the rotation and translation of the input; its
  matrix is the identity times its scale.
\<close>

theorem inverse_scale_has_no_rotation_or_translation:
  assumes img: "fs target = Some (NiftiFile fixed_obj)"
      and tfm: "fs transform = Some (TransformFile (Similarity3DTransform tfm))"
      and nz: "scale tfm \<noteq> 0"
      and rot: "orthogonal (rotation tfm)"
      and shp: "shape fixed_obj = dim_x # dim_y # dim_z # more_dims"
      and zms: "zooms fixed_obj = spacing_x # more_spacings"
  shows "\<exists>inverseScale rigid.
           decompose transform target fs = Inr (Similarity3DTransform inverseScale, rigid)
           \<and> rotation inverseScale = eye3
           \<and> sim_translation inverseScale = zeros3
           \<and> GetMatrix (Similarity3DTransform inverseScale)
               = Inr (scale_mat (scale inverseScale) eye3)"
proof -
  note result = decompose_similarity[OF assms]
  show ?thesis
    by (simp add: result)
qed

theorem inverse_scale_has_no_rotation_or_translation_witness:
  "\<exists>inverseScale rigid.
     decompose [''work'', ''ai.mat''] [''data'', ''fixed.nii.gz''] example_fs
       = Inr (Similarity3DTransform inverseScale, rigid)
     \<and> rotation inverseScale = eye3
     \<and> sim_translation inverseScale = zeros3
     \<and> GetMatrix (Similarity3DTransform inverseScale)
         = Inr (scale_mat (scale inverseScale) eye3)"
  by (rule inverse_scale_has_no_rotation_or_translation[where fixed_obj = example_image
        and tfm = example_similarity
        and dim_x = 256 and dim_y = 240 and dim_z = 176 and more_dims = "[]"
        and spacing_x = "1 / 2" and more_spacings = "[1, 1]"])
    (simp_all add: example_fs_simps example_orthogonal example_image_def)

section \<open>Extraction from a composite transform\<close>

lemma example_extracted_paths:
  "extracted_path [''work'', ''outputComposite.h5''] = [''work'', ''outputRigid.mat'']"
  "extracted_path [''work'', ''twoComposite.h5''] = [''work'', ''twoRigid.mat'']"
  "extracted_path [''work'', ''scaledComposite.h5''] = [''work'', ''scaledRigid.mat'']"
  by (simp_all add: extracted_path_def path_join_def path_parent_def path_name_def replace_def)

text \<open>
  Claim C3, as amended. For every composite transform with at least one sub-transform
  left after flattening, \<^verbatim>\<open>extract_from_composite\<close> returns the first of them
  unchanged: the wrapped transform when exactly one rigid sub-transform is left, and the
  first one just the same when more than one is left or when it is not a rigid transform.
  It raises no error for either.
\<close>

theorem extract_from_composite_first_member:
  assumes "fs composite = Some (TransformFile (CompositeTransform ts))"
      and "concat (map members ts) = first # others"
  shows "extract_from_composite composite fs
           = Inr (fs(extracted_path composite \<mapsto> TransformFile first), extracted_path composite)"
  using assms
  by (simp add: extract_from_composite_def ReadTransform_def WriteTransform_def)

theorem extract_from_composite_first_member_witness:
  "extract_from_composite [''work'', ''outputComposite.h5''] example_fs
     = Inr (example_fs([''work'', ''outputRigid.mat''] \<mapsto> TransformFile (Euler3DTransform example_A)),
            [''work'', ''outputRigid.mat''])"
  using extract_from_composite_first_member[of example_fs "[''work'', ''outputComposite.h5'']"
      "[Euler3DTransform example_A]" "Euler3DTransform example_A" "[]"]
  by (simp add: example_fs_simps example_extracted_paths)

text \<open>
  The claim as stated is false on the code in both of its failure cases. The composite
  in \<^verbatim>\<open>twoComposite.h5\<close> has two sub-transforms after flattening, and the function
  returns the first; the one in \<^verbatim>\<open>scaledComposite.h5\<close> wraps a similarity transform,
  which is not rigid, and the function returns it.
\<close>

theorem extract_from_composite_no_error_counterexample:
  "extract_from_composite [''work'', ''twoComposite.h5''] example_fs
     = Inr (example_fs([''work'', ''twoRigid.mat''] \<mapsto> TransformFile (Euler3DTransform example_A)),
            [''work'', ''twoRigid.mat''])
   \<and> extract_from_composite [''work'', ''scaledComposite.h5''] example_fs
     = Inr (example_fs([''work'', ''scaledRigid.mat''] \<mapsto>
              TransformFile (Similarity3DTransform example_similarity)),
            [''work'', ''scaledRigid.mat''])"
  by (simp add: extract_from_composite_def ReadTransform_def WriteTransform_def example_fs_simps
      example_extracted_paths)

section \<open>The orchestrator's decisions\<close>

lemma check_fixed_pair_both_or_none:
  "check_fixed_pair args = Inr () \<longleftrightarrow> (fixed_transform args = None) = (fixed_target args = None)"
  by (simp add: check_fixed_pair_def)

lemma compose_two_rigid:
  assumes refined: "fs rigid_mat = Some (TransformFile (Euler3DTransform refined_tfm))"
      and prior: "fs prior = Some (TransformFile (Euler3DTransform prior_tfm))"
      and rigid: "orthogonal (matrix refined_tfm)" "orthogonal (matrix prior_tfm)"
  shows "\<exists>final. compose_transforms [rigid_mat, prior] output_filepath fs
                    = Inr (fs(output_filepath \<mapsto> TransformFile (Euler3DTransform final)))
           \<and> (\<forall>p. TransformPoint final p = TransformPoint refined_tfm (TransformPoint prior_tfm p))"
proof -
  from spec_fold_point[of "[refined_tfm, prior_tfm]"] obtain R t where
    fold: "spec_fold [refined_tfm, prior_tfm] = (R, 0, t)"
    and pt: "\<And>p. dot_mv R p + t = TransformPoint refined_tfm (TransformPoint prior_tfm p)"
    by auto
  have "orthogonal (fst (spec_fold [refined_tfm, prior_tfm]))"
    by (rule spec_fold_orthogonal) (simp add: rigid)
  then have ok: "MatrixIsOrthogonal R default_tolerance"
    by (simp add: fold orthogonal_MatrixIsOrthogonal)
  have files: "map fs [rigid_mat, prior]
                 = map (\<lambda>T. Some (TransformFile (Euler3DTransform T))) [refined_tfm, prior_tfm]"
    using refined prior by simp
  let ?final = "\<lparr>matrix = R, center = 0, translation = t\<rparr>"
  have "compose_transforms [rigid_mat, prior] output_filepath fs
          = Inr (fs(output_filepath \<mapsto> TransformFile (Euler3DTransform ?final)))"
    by (rule compose_transforms_euler[OF files fold ok])
  moreover have "TransformPoint ?final p = TransformPoint refined_tfm (TransformPoint prior_tfm p)"
    for p
    using pt[of p] by (simp add: TransformPoint_def)
  ultimately show ?thesis
    by blast
qed

text \<open>
  Where \<^verbatim>\<open>target_to_use\<close> and \<^verbatim>\<open>transform_to_use\<close> go: they are the reference image
  and the transform of the final resampling. (A path never reads as an option: its
  string starts with a slash.)
\<close>

lemma path_str_not_option [simp]: "path_str p \<noteq> CHR ''-'' # rest"
  by (cases p) (simp_all add: path_str_def)

lemma reference_image_of_transform_cmd:
  "option_values (transform_cmd moving target tmp transform_to_use) ''--reference-image''
     = [path_str target]"
  by (simp add: transform_cmd_def)

lemma transform_of_transform_cmd:
  "option_values (transform_cmd moving target tmp transform_to_use) ''--transform''
     = [path_str transform_to_use]"
  by (simp add: transform_cmd_def)

text \<open>
  The combination stage on its own (lines 473 to 479). With a prior transform and a prior
  target, the transform to use is \<^verbatim>\<open>combined.mat\<close>, written by
  \<^verbatim>\<open>compose_transforms\<close> for \<open>[refined, prior]\<close>, and the target to use is the prior
  target; without a prior transform, the file system is left as it is, the transform to
  use is the refined transform and the target to use is the original fixed image.
\<close>

lemma combine_transforms_prior_or_not:
  "(\<forall>prior prior_target refined_tfm prior_tfm.
      fixed_transform args = Some prior \<and> fixed_target args = Some prior_target
      \<and> fs rigid_mat = Some (TransformFile (Euler3DTransform refined_tfm))
      \<and> fs prior = Some (TransformFile (Euler3DTransform prior_tfm))
      \<and> orthogonal (matrix refined_tfm) \<and> orthogonal (matrix prior_tfm)
      \<longrightarrow> (\<exists>fs' final.
             combine_transforms args tmp rigid_mat fs
               = Inr (fs', path_join tmp ''combined.mat'', Some prior_target)
             \<and> compose_transforms [rigid_mat, prior] (path_join tmp ''combined.mat'') fs = Inr fs'
             \<and> fs' (path_join tmp ''combined.mat'') = Some (TransformFile (Euler3DTransform final))
             \<and> (\<forall>p. TransformPoint final p = TransformPoint refined_tfm (TransformPoint prior_tfm p))))
   \<and> (fixed_transform args = None
      \<longrightarrow> combine_transforms args tmp rigid_mat fs = Inr (fs, rigid_mat, Some (fixed_image args)))"
proof (intro conjI allI impI)
  fix prior prior_target refined_tfm prior_tfm
  assume a: "fixed_transform args = Some prior \<and> fixed_target args = Some prior_target
      \<and> fs rigid_mat = Some (TransformFile (Euler3DTransform refined_tfm))
      \<and> fs prior = Some (TransformFile (Euler3DTransform prior_tfm))
      \<and> orthogonal (matrix refined_tfm) \<and> orthogonal (matrix prior_tfm)"
  let ?combined = "path_join tmp ''combined.mat''"
  from a compose_two_rigid[of fs rigid_mat refined_tfm prior prior_tfm ?combined]
  obtain final where
    c: "compose_transforms [rigid_mat, prior] ?combined fs
          = Inr (fs(?combined \<mapsto> TransformFile (Euler3DTransform final)))"
    and pt: "\<forall>p. TransformPoint final p = TransformPoint refined_tfm (TransformPoint prior_tfm p)"
    by blast
  have "combine_transforms args tmp rigid_mat fs
          = Inr (fs(?combined \<mapsto> TransformFile (Euler3DTransform final)), ?combined,
                 Some prior_target)"
    using a by (simp add: combine_transforms_def c)
  with c pt
  show "\<exists>fs' final.
          combine_transforms args tmp rigid_mat fs = Inr (fs', ?combined, Some prior_target)
          \<and> compose_transforms [rigid_mat, prior] ?combined fs = Inr fs'
          \<and> fs' ?combined = Some (TransformFile (Euler3DTransform final))
          \<and> (\<forall>p. TransformPoint final p = TransformPoint refined_tfm (TransformPoint prior_tfm p))"
    by (intro exI[of _ "fs(?combined \<mapsto> TransformFile (Euler3DTransform final))"] exI[of _ final])
      simp
next
  assume "fixed_transform args = None"
  then show "combine_transforms args tmp rigid_mat fs
               = Inr (fs, rigid_mat, Some (fixed_image args))"
    by (simp add: combine_transforms_def)
qed

lemma and_then_eq_Inr: "and_then r f = Inr y \<longleftrightarrow> (\<exists>x. r = Inr x \<and> f x = Inr y)"
  by (cases r) simp_all

lemma path_parent_join [simp]: "path_parent (path_join p s) = p"
  by (simp add: path_parent_def path_join_def)

lemma path_name_join [simp]: "path_name (path_join p s) = s"
  by (simp add: path_name_def path_join_def)

lemma extracted_path_outputComposite:
  "extracted_path (path_join tmp ''outputComposite.h5'') = path_join tmp ''outputRigid.mat''"
  by (simp add: extracted_path_def replace_def)

lemma path_suffix_mat:
  "path_suffix (path_join tmp ''combined.mat'') = ''.mat''"
  "path_suffix (path_join tmp ''outputRigid.mat'') = ''.mat''"
  by (simp_all add: path_suffix_def rfind_dot_def)

lemma published_not_in_temp_dir:
  "take (length (temp_dir args)) (published_transform args) \<noteq> temp_dir args"
  by (simp add: temp_dir_def published_transform_def path_join_def)

lemma rmtree_outside: "take (length dir) p \<noteq> dir \<Longrightarrow> rmtree dir fs p = fs p"
  by (simp add: rmtree_def)

lemma rename_dst: "rename src dst fs = Inr fs' \<Longrightarrow> fs' dst = fs src"
  by (auto simp: rename_def split: option.splits)

lemma rename_other:
  "rename src dst fs = Inr fs' \<Longrightarrow> p \<noteq> src \<Longrightarrow> p \<noteq> dst \<Longrightarrow> fs' p = fs p"
  by (auto simp: rename_def split: option.splits)

lemma clip_to_input_range_other:
  "clip_to_input_range img_path input_path fs = Inr fs' \<Longrightarrow> p \<noteq> img_path \<Longrightarrow> fs' p = fs p"
proof -
  assume run: "clip_to_input_range img_path input_path fs = Inr fs'" and other: "p \<noteq> img_path"
  from run obtain img_obj input_obj :: nifti where
    rest: "(case fdata input_obj of
              [] \<Rightarrow> Inl ValueError
            | x # xs \<Rightarrow>
                let lo = fold min xs x;
                    hi = fold max xs x;
                    img_data = map (\<lambda>v. min (max v lo) hi) (fdata img_obj)
                in Inr (fs(img_path \<mapsto> NiftiFile (img_obj\<lparr>fdata := img_data\<rparr>)))) = Inr fs'"
    unfolding clip_to_input_range_def and_then_eq_Inr by blast
  show "fs' p = fs p"
  proof (cases "fdata input_obj")
    case Nil
    with rest show ?thesis by simp
  next
    case (Cons x xs)
    with rest other show ?thesis by (auto simp: Let_def)
  qed
qed

lemma subprocess_run_Inr:
  "subprocess_run tools cmd (fs, cmds) = Inr (fs', cmds') \<longleftrightarrow>
     tools cmd fs = Some fs' \<and> cmds' = cmds @ [cmd]"
  by (auto simp: subprocess_run_def split: option.splits)

lemma temp_file_not_published:
  "path_join (temp_dir args) name \<noteq> path_join (output_dir args) other"
  by (simp add: temp_dir_def path_join_def)

text \<open>The transform to use, once in place, is what the run publishes.\<close>

lemma resample_and_publish_transform:
  assumes run: "resample_and_publish tools args (path_join (temp_dir args) name) target (fs, cmds)
                  = Inr (fs_final, cmds_final)"
      and suffix: "path_suffix (path_join (temp_dir args) name) = ''.mat''"
      and name: "name \<noteq> ''output.nii.gz''"
      and held: "fs (path_join (temp_dir args) name) = Some (TransformFile t)"
      and frame: "\<And>cmd s s' p u. tools cmd s = Some s' \<Longrightarrow> s p = Some (TransformFile u)
                    \<Longrightarrow> s' p = Some (TransformFile u)"
  shows "fs_final (published_transform args) = Some (TransformFile t)
         \<and> cmds_final
              = cmds @ [transform_cmd (moving_image args) target (temp_dir args)
                          (path_join (temp_dir args) name)]"
proof -
  let ?tu = "path_join (temp_dir args) name"
  let ?out = "path_join (temp_dir args) ''output.nii.gz''"
  let ?cmd = "transform_cmd (moving_image args) target (temp_dir args) ?tu"
  from run obtain fs1 fs2 fs3 fs4 where
    r1: "tools ?cmd fs = Some fs1" and c: "cmds_final = cmds @ [?cmd]"
    and r2: "clip_to_input_range ?out (moving_image args) fs1 = Inr fs2"
    and r3: "rename ?out (path_join (output_dir args) (moving_stem args @ ''_reg'' @ ext args)) fs2
               = Inr fs3"
    and r4: "rename ?tu (published_transform args) fs3 = Inr fs4"
    and r5: "fs_final = rmtree (temp_dir args) fs4"
    by (auto simp: resample_and_publish_def and_then_eq_Inr subprocess_run_Inr suffix
        published_transform_def)
  have "fs1 ?tu = Some (TransformFile t)"
    by (rule frame[OF r1 held])
  then have "fs2 ?tu = Some (TransformFile t)"
    using clip_to_input_range_other[OF r2, of ?tu] name by simp
  then have "fs3 ?tu = Some (TransformFile t)"
    using rename_other[OF r3, of ?tu] name temp_file_not_published by simp
  then have "fs4 (published_transform args) = Some (TransformFile t)"
    using rename_dst[OF r4] by simp
  then show ?thesis
    using r5 c by (simp add: rmtree_outside published_not_in_temp_dir)
qed

lemma extract_refined:
  assumes "fs (path_join tmp ''outputComposite.h5'') = Some (TransformFile (CompositeTransform ts))"
      and "concat (map members ts) = first # others"
  shows "extract_from_composite (path_join tmp ''outputComposite.h5'') fs
           = Inr (fs(path_join tmp ''outputRigid.mat'' \<mapsto> TransformFile first),
                  path_join tmp ''outputRigid.mat'')"
  using assms
  by (simp add: extract_from_composite_def ReadTransform_def WriteTransform_def
      extracted_path_outputComposite)

lemma example_names:
  "temp_dir example_args = [''out'', ''moving__fixed'']"
  "temp_dir example_args_no_prior = [''out'', ''moving__fixed'']"
  "published_transform example_args = [''out'', ''moving_reg.mat'']"
  "published_transform example_args_no_prior = [''out'', ''moving_reg.mat'']"
  "ext example_args = ''.nii.gz''"
  by (simp_all add: temp_dir_def published_transform_def moving_stem_def fixed_stem_def ext_def
      example_args_def example_args_no_prior_def path_join_def path_name_def)

lemma example_args_fields:
  "moving_image example_args = [''data'', ''moving.nii.gz'']"
  "moving_image example_args_no_prior = [''data'', ''moving.nii.gz'']"
  "fixed_image example_args_no_prior = [''data'', ''fixed.nii.gz'']"
  "output_dir example_args = [''out'']"
  "output_dir example_args_no_prior = [''out'']"
  "fixed_transform example_args = Some [''work'', ''B.mat'']"
  "fixed_target example_args = Some [''data'', ''atlas.nii.gz'']"
  "fixed_transform example_args_no_prior = None"
  "moving_stem example_args = ''moving''"
  "moving_stem example_args_no_prior = ''moving''"
  "ext example_args_no_prior = ''.nii.gz''"
  by (simp_all add: example_args_def example_args_no_prior_def moving_stem_def ext_def
      path_name_def)

lemma example_tools_frame:
  "\<forall>cmd s s' p u. example_tools cmd s = Some s' \<and> s p = Some (TransformFile u)
     \<longrightarrow> s' p = Some (TransformFile u)"
  by (auto simp: example_tools_def split: option.splits file_content.splits if_splits)

lemma example_run_fs_simps:
  "example_run_fs [''out'', ''moving__fixed'', ''outputComposite.h5'']
     = Some (TransformFile (CompositeTransform [Euler3DTransform example_A]))"
  "example_run_fs [''data'', ''moving.nii.gz''] = Some (NiftiFile example_moving)"
  "example_run_fs [''work'', ''B.mat''] = Some (TransformFile (Euler3DTransform example_B))"
  "example_run_fs [''out'', ''moving__fixed'', ''output.nii.gz''] = None"
  by (simp_all add: example_run_fs_def example_fs_def)

lemma example_extracted:
  "extract_from_composite [''out'', ''moving__fixed'', ''outputComposite.h5''] example_run_fs
     = Inr (example_run_fs([''out'', ''moving__fixed'', ''outputRigid.mat'']
                             \<mapsto> TransformFile (Euler3DTransform example_A)),
            [''out'', ''moving__fixed'', ''outputRigid.mat''])"
  using extract_refined[of example_run_fs "[''out'', ''moving__fixed'']"
      "[Euler3DTransform example_A]" "Euler3DTransform example_A" "[]"]
  by (simp add: example_run_fs_simps path_join_def)

lemma example_resampling_succeeds:
  assumes "fs [''out'', ''moving__fixed'', ''output.nii.gz''] = None"
      and "fs [''data'', ''moving.nii.gz''] = Some (NiftiFile example_moving)"
      and "fs transform_to_use = Some f"
      and "temp_dir args = [''out'', ''moving__fixed'']"
      and "moving_image args = [''data'', ''moving.nii.gz'']"
      and "transform_to_use \<noteq> [''out'', ''moving__fixed'', ''output.nii.gz'']"
      and "transform_to_use \<noteq> path_join (output_dir args) (moving_stem args @ ''_reg'' @ ext args)"
  shows "\<exists>result. resample_and_publish example_tools args transform_to_use target (fs, cmds)
                    = Inr result"
  using assms
  by (simp add: resample_and_publish_def subprocess_run_def example_tools_def
      clip_to_input_range_def Nifti1Image_load_def example_moving_def rename_def path_join_def
      Let_def)

lemma example_run_succeeds:
  "\<exists>result. main_final_stages example_tools example_args (example_run_fs, []) = Inr result"
proof -
  let ?rigid_mat = "[''out'', ''moving__fixed'', ''outputRigid.mat'']"
  let ?combined = "[''out'', ''moving__fixed'', ''combined.mat'']"
  let ?fs_r = "example_run_fs(?rigid_mat \<mapsto> TransformFile (Euler3DTransform example_A))"
  have "?fs_r ?rigid_mat = Some (TransformFile (Euler3DTransform example_A))"
    by simp
  moreover have "?fs_r [''work'', ''B.mat''] = Some (TransformFile (Euler3DTransform example_B))"
    by (simp add: example_run_fs_simps)
  ultimately obtain final where
    c: "compose_transforms [?rigid_mat, [''work'', ''B.mat'']] ?combined ?fs_r
          = Inr (?fs_r(?combined \<mapsto> TransformFile (Euler3DTransform final)))"
    using compose_two_rigid[of ?fs_r ?rigid_mat example_A "[''work'', ''B.mat'']" example_B ?combined]
      example_orthogonal by blast
  let ?fs_c = "?fs_r(?combined \<mapsto> TransformFile (Euler3DTransform final))"
  have "\<exists>result. resample_and_publish example_tools example_args ?combined
                    [''data'', ''atlas.nii.gz''] (?fs_c, []) = Inr result"
    by (rule example_resampling_succeeds[where f = "TransformFile (Euler3DTransform final)"])
      (simp_all add: example_run_fs_simps example_names example_args_fields path_join_def)
  then show ?thesis
    by (simp add: main_final_stages_def example_names example_extracted combine_transforms_def
        example_args_fields c path_join_def)
qed

lemma example_run_no_prior_succeeds:
  "\<exists>result. main_final_stages example_tools example_args_no_prior (example_run_fs, [])
                  = Inr result"
proof -
  let ?rigid_mat = "[''out'', ''moving__fixed'', ''outputRigid.mat'']"
  let ?fs_r = "example_run_fs(?rigid_mat \<mapsto> TransformFile (Euler3DTransform example_A))"
  have "\<exists>result. resample_and_publish example_tools example_args_no_prior ?rigid_mat
                    [''data'', ''fixed.nii.gz''] (?fs_r, []) = Inr result"
    by (rule example_resampling_succeeds[where f = "TransformFile (Euler3DTransform example_A)"])
      (simp_all add: example_run_fs_simps example_names example_args_fields path_join_def)
  then show ?thesis
    by (simp add: main_final_stages_def example_names example_extracted combine_transforms_def
        example_args_fields path_join_def)
qed

text \<open>
  Claim C8. Take a run of the final stages of \<^verbatim>\<open>main\<close> that ends well, from a
  state in which the refinement has left a composite whose first member is the rigid
  refined transform, with external tools that leave transform files as they are.

  \<^item> When a prior transform and a prior target are supplied (the prior transform a rigid
    one, in a file other than the one the extraction writes), the transform published as
    \<^verbatim>\<open>{moving_stem}_reg.mat\<close> is the one \<^verbatim>\<open>compose_transforms\<close> wrote for
    \<open>[refined, prior]\<close>, which maps every point as the refined transform after the
    prior one; the run's one command is the resampling, its reference image is the prior
    target and its transform is \<^verbatim>\<open>combined.mat\<close>.
  \<^item> When no prior transform is supplied, the transform published is the refined
    transform itself, and the resampling has the original fixed image as reference image
    and the extracted refined transform as transform.
\<close>

theorem published_transform_and_resampling_target:
  assumes composite: "fs (path_join (temp_dir args) ''outputComposite.h5'')
                        = Some (TransformFile (CompositeTransform ts))"
      and refined: "concat (map members ts) = Euler3DTransform refined_tfm # others"
      and frame: "\<forall>cmd s s' p u. tools cmd s = Some s' \<and> s p = Some (TransformFile u)
                    \<longrightarrow> s' p = Some (TransformFile u)"
      and run: "main_final_stages tools args (fs, cmds) = Inr (fs_final, cmds_final)"
  shows "(\<forall>prior prior_target prior_tfm.
            fixed_transform args = Some prior \<and> fixed_target args = Some prior_target
            \<and> fs prior = Some (TransformFile (Euler3DTransform prior_tfm))
            \<and> prior \<noteq> path_join (temp_dir args) ''outputRigid.mat''
            \<and> orthogonal (matrix refined_tfm) \<and> orthogonal (matrix prior_tfm)
            \<longrightarrow> (\<exists>final composed resample.
                   compose_transforms [path_join (temp_dir args) ''outputRigid.mat'', prior]
                       (path_join (temp_dir args) ''combined.mat'')
                       (fs(path_join (temp_dir args) ''outputRigid.mat''
                             \<mapsto> TransformFile (Euler3DTransform refined_tfm)))
                     = Inr composed
                   \<and> composed (path_join (temp_dir args) ''combined.mat'')
                       = Some (TransformFile (Euler3DTransform final))
                   \<and> (\<forall>p. TransformPoint final p
                            = TransformPoint refined_tfm (TransformPoint prior_tfm p))
                   \<and> fs_final (published_transform args)
                       = Some (TransformFile (Euler3DTransform final))
                   \<and> cmds_final = cmds @ [resample]
                   \<and> option_values resample ''--reference-image'' = [path_str prior_target]
                   \<and> option_values resample ''--transform''
                       = [path_str (path_join (temp_dir args) ''combined.mat'')]))
         \<and> (fixed_transform args = None
            \<longrightarrow> (\<exists>resample.
                   fs_final (published_transform args)
                     = Some (TransformFile (Euler3DTransform refined_tfm))
                   \<and> cmds_final = cmds @ [resample]
                   \<and> option_values resample ''--reference-image'' = [path_str (fixed_image args)]
                   \<and> option_values resample ''--transform''
                       = [path_str (path_join (temp_dir args) ''outputRigid.mat'')]))"
proof (intro conjI allI impI)
  let ?rigid_mat = "path_join (temp_dir args) ''outputRigid.mat''"
  let ?combined = "path_join (temp_dir args) ''combined.mat''"
  let ?fs_r = "fs(?rigid_mat \<mapsto> TransformFile (Euler3DTransform refined_tfm))"
  note extracted = extract_refined[of fs "temp_dir args", OF composite refined]
  {
    fix prior prior_target prior_tfm
    assume a: "fixed_transform args = Some prior \<and> fixed_target args = Some prior_target
            \<and> fs prior = Some (TransformFile (Euler3DTransform prior_tfm))
            \<and> prior \<noteq> ?rigid_mat
            \<and> orthogonal (matrix refined_tfm) \<and> orthogonal (matrix prior_tfm)"
    then have prior_held: "?fs_r prior = Some (TransformFile (Euler3DTransform prior_tfm))"
      by simp
    have refined_held: "?fs_r ?rigid_mat = Some (TransformFile (Euler3DTransform refined_tfm))"
      by simp
    from compose_two_rigid[OF refined_held prior_held, of ?combined] a
    obtain final where
      c: "compose_transforms [?rigid_mat, prior] ?combined ?fs_r
            = Inr (?fs_r(?combined \<mapsto> TransformFile (Euler3DTransform final)))"
      and pt: "\<forall>p. TransformPoint final p = TransformPoint refined_tfm (TransformPoint prior_tfm p)"
      by blast
    let ?fs_c = "?fs_r(?combined \<mapsto> TransformFile (Euler3DTransform final))"
    have res: "resample_and_publish tools args ?combined prior_target (?fs_c, cmds)
            = Inr (fs_final, cmds_final)"
      using run a by (simp add: main_final_stages_def extracted combine_transforms_def c)
    have "fs_final (published_transform args) = Some (TransformFile (Euler3DTransform final))
          \<and> cmds_final = cmds @ [transform_cmd (moving_image args) prior_target
                                     (temp_dir args) ?combined]"
    proof (rule resample_and_publish_transform[OF res])
      show "path_suffix ?combined = ''.mat''"
        by (rule path_suffix_mat)
      show "''combined.mat'' \<noteq> ''output.nii.gz''"
        by simp
      show "?fs_c ?combined = Some (TransformFile (Euler3DTransform final))"
        by simp
      show "\<And>cmd s s' p u. tools cmd s = Some s' \<Longrightarrow> s p = Some (TransformFile u)
              \<Longrightarrow> s' p = Some (TransformFile u)"
        using frame by blast
    qed
    then have pub: "fs_final (published_transform args)
                      = Some (TransformFile (Euler3DTransform final))"
      and ran: "cmds_final = cmds @ [transform_cmd (moving_image args) prior_target
                                       (temp_dir args) ?combined]"
      by simp_all
    show "\<exists>final composed resample.
            compose_transforms [?rigid_mat, prior] ?combined ?fs_r = Inr composed
            \<and> composed ?combined = Some (TransformFile (Euler3DTransform final))
            \<and> (\<forall>p. TransformPoint final p = TransformPoint refined_tfm (TransformPoint prior_tfm p))
            \<and> fs_final (published_transform args) = Some (TransformFile (Euler3DTransform final))
            \<and> cmds_final = cmds @ [resample]
            \<and> option_values resample ''--reference-image'' = [path_str prior_target]
            \<and> option_values resample ''--transform'' = [path_str ?combined]"
      using c pt pub ran
      by (intro exI[of _ final] exI[of _ ?fs_c]
          exI[of _ "transform_cmd (moving_image args) prior_target (temp_dir args) ?combined"])
        (simp add: reference_image_of_transform_cmd transform_of_transform_cmd)
  }
  {
    assume none: "fixed_transform args = None"
    have res: "resample_and_publish tools args ?rigid_mat (fixed_image args) (?fs_r, cmds)
            = Inr (fs_final, cmds_final)"
      using run none by (simp add: main_final_stages_def extracted combine_transforms_def)
    have "fs_final (published_transform args)
            = Some (TransformFile (Euler3DTransform refined_tfm))
          \<and> cmds_final = cmds @ [transform_cmd (moving_image args) (fixed_image args)
                                     (temp_dir args) ?rigid_mat]"
    proof (rule resample_and_publish_transform[OF res])
      show "path_suffix ?rigid_mat = ''.mat''"
        by (rule path_suffix_mat)
      show "''outputRigid.mat'' \<noteq> ''output.nii.gz''"
        by simp
      show "?fs_r ?rigid_mat = Some (TransformFile (Euler3DTransform refined_tfm))"
        by simp
      show "\<And>cmd s s' p u. tools cmd s = Some s' \<Longrightarrow> s p = Some (TransformFile u)
              \<Longrightarrow> s' p = Some (TransformFile u)"
        using frame by blast
    qed
    then have pub: "fs_final (published_transform args)
                      = Some (TransformFile (Euler3DTransform refined_tfm))"
      and ran: "cmds_final = cmds @ [transform_cmd (moving_image args) (fixed_image args)
                                       (temp_dir args) ?rigid_mat]"
      by simp_all
    show "\<exists>resample.
            fs_final (published_transform args) = Some (TransformFile (Euler3DTransform refined_tfm))
            \<and> cmds_final = cmds @ [resample]
            \<and> option_values resample ''--reference-image'' = [path_str (fixed_image args)]
            \<and> option_values resample ''--transform'' = [path_str ?rigid_mat]"
      using pub ran
      by (intro exI[of _ "transform_cmd (moving_image args) (fixed_image args)
                            (temp_dir args) ?rigid_mat"])
        (simp add: reference_image_of_transform_cmd transform_of_transform_cmd)
  }
qed

theorem published_transform_and_resampling_target_witness:
  "(\<exists>fs_final cmds_final final resample.
      main_final_stages example_tools example_args (example_run_fs, []) = Inr (fs_final, cmds_final)
      \<and> fs_final [''out'', ''moving_reg.mat''] = Some (TransformFile (Euler3DTransform final))
      \<and> (\<forall>p. TransformPoint final p = TransformPoint example_A (TransformPoint example_B p))
      \<and> cmds_final = [resample]
      \<and> option_values resample ''--reference-image'' = [''/data/atlas.nii.gz'']
      \<and> option_values resample ''--transform'' = [''/out/moving__fixed/combined.mat''])
   \<and> (\<exists>fs_final cmds_final resample.
      main_final_stages example_tools example_args_no_prior (example_run_fs, [])
        = Inr (fs_final, cmds_final)
      \<and> fs_final [''out'', ''moving_reg.mat''] = Some (TransformFile (Euler3DTransform example_A))
      \<and> cmds_final = [resample]
      \<and> option_values resample ''--reference-image'' = [''/data/fixed.nii.gz'']
      \<and> option_values resample ''--transform'' = [''/out/moving__fixed/outputRigid.mat''])"
proof (intro conjI)
  from example_run_succeeds obtain fs_final cmds_final where
    run: "main_final_stages example_tools example_args (example_run_fs, []) = Inr (fs_final, cmds_final)"
    by fastforce
  have composite: "example_run_fs (path_join (temp_dir example_args) ''outputComposite.h5'')
                     = Some (TransformFile (CompositeTransform [Euler3DTransform example_A]))"
    by (simp add: example_names path_join_def example_run_fs_simps)
  have refined: "concat (map members [Euler3DTransform example_A])
                   = Euler3DTransform example_A # []"
    by simp
  have prior: "fixed_transform example_args = Some [''work'', ''B.mat'']
      \<and> fixed_target example_args = Some [''data'', ''atlas.nii.gz'']
      \<and> example_run_fs [''work'', ''B.mat''] = Some (TransformFile (Euler3DTransform example_B))
      \<and> [''work'', ''B.mat''] \<noteq> path_join (temp_dir example_args) ''outputRigid.mat''
      \<and> orthogonal (matrix example_A) \<and> orthogonal (matrix example_B)"
    by (simp add: example_args_fields example_run_fs_simps example_names path_join_def
        example_orthogonal)
  from published_transform_and_resampling_target[where fs = example_run_fs
      and args = example_args and tools = example_tools and refined_tfm = example_A
      and cmds = "[]", OF composite refined example_tools_frame run]
    prior
  obtain final resample where
    "fs_final (published_transform example_args) = Some (TransformFile (Euler3DTransform final))"
    "\<forall>p. TransformPoint final p = TransformPoint example_A (TransformPoint example_B p)"
    "cmds_final = [] @ [resample]"
    "option_values resample ''--reference-image'' = [path_str [''data'', ''atlas.nii.gz'']]"
    "option_values resample ''--transform''
       = [path_str (path_join (temp_dir example_args) ''combined.mat'')]"
    by blast
  with run
  show "\<exists>fs_final cmds_final final resample.
      main_final_stages example_tools example_args (example_run_fs, []) = Inr (fs_final, cmds_final)
      \<and> fs_final [''out'', ''moving_reg.mat''] = Some (TransformFile (Euler3DTransform final))
      \<and> (\<forall>p. TransformPoint final p = TransformPoint example_A (TransformPoint example_B p))
      \<and> cmds_final = [resample]
      \<and> option_values resample ''--reference-image'' = [''/data/atlas.nii.gz'']
      \<and> option_values resample ''--transform'' = [''/out/moving__fixed/combined.mat'']"
    by (intro exI[of _ fs_final] exI[of _ cmds_final] exI[of _ final] exI[of _ resample])
      (simp add: example_names path_str_def path_join_def)
next
  from example_run_no_prior_succeeds obtain fs_final cmds_final where
    run: "main_final_stages example_tools example_args_no_prior (example_run_fs, [])
            = Inr (fs_final, cmds_final)"
    by fastforce
  have composite: "example_run_fs (path_join (temp_dir example_args_no_prior) ''outputComposite.h5'')
                     = Some (TransformFile (CompositeTransform [Euler3DTransform example_A]))"
    by (simp add: example_names path_join_def example_run_fs_simps)
  have refined: "concat (map members [Euler3DTransform example_A])
                   = Euler3DTransform example_A # []"
    by simp
  from published_transform_and_resampling_target[where fs = example_run_fs
      and args = example_args_no_prior and tools = example_tools and refined_tfm = example_A
      and cmds = "[]", OF composite refined example_tools_frame run]
    example_args_fields(8)
  obtain resample where
    "fs_final (published_transform example_args_no_prior)
       = Some (TransformFile (Euler3DTransform example_A))"
    "cmds_final = [] @ [resample]"
    "option_values resample ''--reference-image'' = [path_str (fixed_image example_args_no_prior)]"
    "option_values resample ''--transform''
       = [path_str (path_join (temp_dir example_args_no_prior) ''outputRigid.mat'')]"
    by blast
  with run
  show "\<exists>fs_final cmds_final resample.
      main_final_stages example_tools example_args_no_prior (example_run_fs, [])
        = Inr (fs_final, cmds_final)
      \<and> fs_final [''out'', ''moving_reg.mat''] = Some (TransformFile (Euler3DTransform example_A))
      \<and> cmds_final = [resample]
      \<and> option_values resample ''--reference-image'' = [''/data/fixed.nii.gz'']
      \<and> option_values resample ''--transform'' = [''/out/moving__fixed/outputRigid.mat'']"
    by (intro exI[of _ fs_final] exI[of _ cmds_final] exI[of _ resample])
      (simp add: example_names example_args_fields path_str_def path_join_def)
qed

text \<open>
  The first \<^verbatim>\<open>--masks\<close> value of the refinement. Without a registration mask it is
  the pair \<^verbatim>\<open>[None,None]\<close>; with one it is the mask's path alone, which is never the
  pair \<^verbatim>\<open>[mask,None]\<close> (the pair is longer). The second value is the pair of the brain
  mask.
\<close>

lemma percent_pair: "percent ''[%s,None]'' [x] = ''['' @ x @ '',None]''"
  by simp

lemma stage_one_masks_absent: "stage_one_masks None = ''[None,None]''"
  by (simp add: stage_one_masks_def)

lemma stage_one_masks_present:
  "stage_one_masks (Some regmask) = path_str regmask"
  "stage_one_masks (Some regmask) \<noteq> percent ''[%s,None]'' [path_str regmask]"
proof -
  show "stage_one_masks (Some regmask) = path_str regmask"
    by (simp add: stage_one_masks_def)
  have "length (stage_one_masks (Some regmask)) \<noteq> length (''['' @ path_str regmask @ '',None]'')"
    by (simp add: stage_one_masks_def)
  then show "stage_one_masks (Some regmask) \<noteq> percent ''[%s,None]'' [path_str regmask]"
    unfolding percent_pair by metis
qed

lemma stage_two_masks_pair:
  "stage_two_masks brainmask = ''['' @ path_str brainmask @ '',None]''"
  by (simp add: stage_two_masks_def)

text \<open>
  Claim C9, the code at a run with a registration mask and without scaling (the example
  arguments): the \<^verbatim>\<open>--masks\<close> values of the refinement command are the bare path of
  the registration mask for stage one, where the claim has the pair
  \<^verbatim>\<open>[/data/fixed_regmask.nii.gz,None]\<close>, and the pair of the brain mask for stage two.
\<close>

theorem reg_cmd_masks_with_regmask:
  "option_values
     (reg_cmd example_temp_dir (moving_image example_args)
        (inputs_to_use example_args example_temp_dir (path_join example_temp_dir ''ai_rigid.mat'')))
     ''--masks''
   = [''/data/fixed_regmask.nii.gz'', ''[/data/fixed_brainmask.nii.gz,None]'']"
  by (simp add: reg_cmd_def inputs_to_use_def example_args_def example_temp_dir_def
      stage_one_masks_def stage_two_masks_def path_str_def path_join_def)

end
